theory Spec2Isabelle
  imports Main "HOL-Library.Word" "HOL-Library.Sublist"
begin

section \<open>JavaScript strings\<close>

text \<open>
  A JavaScript string is a finite sequence of UTF-16 code units; \<^verbatim>\<open>length\<close>, the regular
  expressions of the source (none has the \<^verbatim>\<open>u\<close> flag) and \<^verbatim>\<open>trim\<close> all work on code
  units. String literals of the source are ASCII and are written with \<open>lit\<close>.
\<close>

type_synonym jschar = "16 word"
type_synonym jsstring = "jschar list"

definition lit :: "string \<Rightarrow> jsstring" where
  "lit s = map of_char s"

text \<open>
  ECMAScript \<^verbatim>\<open>WhiteSpace\<close> and \<^verbatim>\<open>LineTerminator\<close> code points: the characters that
  \<^verbatim>\<open>String.prototype.trim\<close> strips and that the class \<^verbatim>\<open>\s\<close> matches
  (TAB, LF, VT, FF, CR, SP, NBSP, U+1680, U+2000..U+200A, LS, PS, U+202F, U+205F, U+3000, BOM).
\<close>

definition is_line_terminator :: "jschar \<Rightarrow> bool" where
  "is_line_terminator c = (c = 0x000A \<or> c = 0x000D \<or> c = 0x2028 \<or> c = 0x2029)"

definition is_space :: "jschar \<Rightarrow> bool" where
  "is_space c =
     (c = 0x0009 \<or> c = 0x000A \<or> c = 0x000B \<or> c = 0x000C \<or> c = 0x000D \<or> c = 0x0020 \<or>
      c = 0x00A0 \<or> c = 0x1680 \<or> (0x2000 \<le> c \<and> c \<le> 0x200A) \<or> c = 0x2028 \<or> c = 0x2029 \<or>
      c = 0x202F \<or> c = 0x205F \<or> c = 0x3000 \<or> c = 0xFEFF)"

text \<open>The class \<^verbatim>\<open>\d\<close> (ASCII digits only) and the class \<^verbatim>\<open>[a-zA-Z0-9_]\<close>.\<close>

definition is_digit :: "jschar \<Rightarrow> bool" where
  "is_digit c = (0x30 \<le> c \<and> c \<le> 0x39)"

definition is_upper :: "jschar \<Rightarrow> bool" where
  "is_upper c = (0x41 \<le> c \<and> c \<le> 0x5A)"

definition is_lower :: "jschar \<Rightarrow> bool" where
  "is_lower c = (0x61 \<le> c \<and> c \<le> 0x7A)"

definition is_word_char :: "jschar \<Rightarrow> bool" where
  "is_word_char c = (is_lower c \<or> is_upper c \<or> is_digit c \<or> c = 0x5F)"

text \<open>\<^verbatim>\<open>String.prototype.trim\<close>: white space removed from both ends.\<close>

definition trim :: "jsstring \<Rightarrow> jsstring" where
  "trim s = rev (dropWhile is_space (rev (dropWhile is_space s)))"

text \<open>\<^verbatim>\<open>String.prototype.startsWith\<close> and \<^verbatim>\<open>String.prototype.includes\<close>.\<close>

definition startsWith :: "jsstring \<Rightarrow> jsstring \<Rightarrow> bool" where
  "startsWith s p = (take (length p) s = p)"

fun includes' :: "jsstring \<Rightarrow> jsstring \<Rightarrow> bool" where
  "includes' [] p = (p = [])"
| "includes' (c # cs) p = (startsWith (c # cs) p \<or> includes' cs p)"

section \<open>The regular expressions of the validators\<close>

text \<open>
  \<^verbatim>\<open>/^[C]{lo,hi}$/.test(s)\<close> for a character class \<open>C\<close>, as the automaton that reads one
  character of the class at a time: \<open>k\<close> counts the characters read, \<open>hi = None\<close> is an
  unbounded repetition (\<^verbatim>\<open>+\<close> is \<^verbatim>\<open>{1,}\<close>). Without the \<^verbatim>\<open>m\<close> flag \<^verbatim>\<open>$\<close> matches at the end
  of the input only.
\<close>

fun class_repeat :: "(jschar \<Rightarrow> bool) \<Rightarrow> nat \<Rightarrow> nat option \<Rightarrow> nat \<Rightarrow> jsstring \<Rightarrow> bool" where
  "class_repeat C lo hi k [] = (lo \<le> k)"
| "class_repeat C lo hi k (c # cs) =
     (C c \<and> (case hi of None \<Rightarrow> True | Some h \<Rightarrow> k < h) \<and> class_repeat C lo hi (Suc k) cs)"

text \<open>\<^verbatim>\<open>/^\d+$/\<close>\<close>

definition digits_only_test :: "jsstring \<Rightarrow> bool" where
  "digits_only_test s = class_repeat is_digit 1 None 0 s"

text \<open>\<^verbatim>\<open>/\s/\<close>\<close>

definition has_space_test :: "jsstring \<Rightarrow> bool" where
  "has_space_test s = list_ex is_space s"

text \<open>\<^verbatim>\<open>/^[a-zA-Z0-9_]{5,32}$/\<close>\<close>

definition telegram_test :: "jsstring \<Rightarrow> bool" where
  "telegram_test s = class_repeat is_word_char 5 (Some 32) 0 s"

text \<open>
  \<^verbatim>\<open>/^(?=.*\d{7})[\d\s()+-]+$/\<close>: the lookahead asks for seven digits in a row after any
  number of characters other than line terminators (the dot), so the run lies before the
  first line terminator; the body asks that every character is of the class.
\<close>

fun has_digit_run :: "nat \<Rightarrow> nat \<Rightarrow> jsstring \<Rightarrow> bool" where
  "has_digit_run n k [] = (n \<le> k)"
| "has_digit_run n k (c # cs) =
     (n \<le> k \<or> (if is_digit c then has_digit_run n (Suc k) cs else has_digit_run n 0 cs))"

definition is_phone_char :: "jschar \<Rightarrow> bool" where
  "is_phone_char c =
     (is_digit c \<or> is_space c \<or> c = 0x28 \<or> c = 0x29 \<or> c = 0x2B \<or> c = 0x2D)"

definition phone_test :: "jsstring \<Rightarrow> bool" where
  "phone_test s =
     (has_digit_run 7 0 (takeWhile (\<lambda>c. \<not> is_line_terminator c) s) \<and>
      class_repeat is_phone_char 1 None 0 s)"

text \<open>
  \<^verbatim>\<open>/^[^\s@]+@[^\s@]+\.[^\s@]+$/\<close>: the first \<^verbatim>\<open>@\<close> ends the local part; what follows holds
  no further \<^verbatim>\<open>@\<close> and no white space, and a dot that is neither its first nor its last
  character.
\<close>

definition is_email_char :: "jschar \<Rightarrow> bool" where
  "is_email_char c = (\<not> is_space c \<and> c \<noteq> 0x40)"

definition emailRegex_test :: "jsstring \<Rightarrow> bool" where
  "emailRegex_test s =
     (let local = takeWhile is_email_char s; rest = dropWhile is_email_char s in
      local \<noteq> [] \<and>
      (case rest of
         [] \<Rightarrow> False
       | c # domain \<Rightarrow>
           c = 0x40 \<and> list_all is_email_char domain \<and>
           domain \<noteq> [] \<and> list_ex (\<lambda>d. d = 0x2E) (butlast (tl domain))))"

text \<open>
  \<^verbatim>\<open>/^https?:\/\//i\<close>: with the \<^verbatim>\<open>i\<close> flag and no \<^verbatim>\<open>u\<close> flag a character of the input matches
  an ASCII letter of the pattern only when it is that letter in either case.
\<close>

definition ascii_lower :: "jschar \<Rightarrow> jschar" where
  "ascii_lower c = (if is_upper c then c + 0x20 else c)"

definition has_http_scheme_test :: "jsstring \<Rightarrow> bool" where
  "has_http_scheme_test s =
     (startsWith (map ascii_lower (take 7 s)) (lit ''http://'') \<or>
      startsWith (map ascii_lower (take 8 s)) (lit ''https://''))"

section \<open>The data model (types.ts)\<close>

datatype Platform = Messenger | Whatsapp | Telegram | Phone | Email

datatype Position = BottomRight | BottomLeft

datatype ButtonAnimation = NoAnimation | Pulse | Bounce | Fade | Shake

datatype WidgetShape = Rounded | Square

datatype MenuSpacing = Compact | Default | Relaxed

datatype EmailLinkType = Mailto | Url

text \<open>An optional field (\<^verbatim>\<open>field?: T\<close>) is an option: \<open>None\<close> is \<^verbatim>\<open>undefined\<close>.\<close>

record PlatformConfig =
  enabled :: bool
  contactId :: jsstring
  predefinedMessage :: "jsstring option"
  emailLinkType :: "EmailLinkType option"
  customIconSvg :: "jsstring option"
  color :: "jsstring option"

text \<open>
  \<^verbatim>\<open>Record<Platform, PlatformConfig>\<close> has exactly one entry for each platform id and is
  only ever read by key (\<^verbatim>\<open>config.platforms[p.id]\<close>): a total function on \<open>Platform\<close>.
\<close>

record WidgetConfig =
  platforms :: "Platform \<Rightarrow> PlatformConfig"
  headerText :: jsstring
  headerBgColor :: jsstring
  headerTextColor :: jsstring
  mainButtonColor :: jsstring
  mainIconColor :: jsstring
  position :: Position
  buttonAnimation :: ButtonAnimation
  widgetShape :: WidgetShape
  menuSpacing :: MenuSpacing

text \<open>
  The exceptions of the code: \<^verbatim>\<open>new URL\<close> throws a \<^verbatim>\<open>TypeError\<close>, the validator throws
  \<^verbatim>\<open>new Error('Invalid hostname')\<close> inside its \<^verbatim>\<open>try\<close>, and \<^verbatim>\<open>encodeURIComponent\<close> throws
  a \<^verbatim>\<open>URIError\<close>.
\<close>

datatype error = TypeError | Error jsstring | URIError

section \<open>The validators (Configurator)\<close>

text \<open>A validator returns \<^verbatim>\<open>string | undefined\<close>: \<open>Some\<close> message, or \<open>None\<close> for no error.\<close>

definition validators_whatsapp :: "jsstring \<Rightarrow> jsstring option" where
  \<open>validators_whatsapp v =
     (let trimmedValue = trim v in
      if trimmedValue = [] then Some (lit ''WhatsApp number is required.'')
      else if \<not> digits_only_test trimmedValue
        then Some (lit ''Please enter digits only, without "+" or spaces.'')
      else if length trimmedValue < 7 \<or> length trimmedValue > 15
        then Some (lit ''Number must be between 7 and 15 digits.'')
      else None)\<close>

definition validators_messenger :: "jsstring \<Rightarrow> jsstring option" where
  \<open>validators_messenger v =
     (let trimmedValue = trim v in
      if trimmedValue = [] then Some (lit ''Page ID or username is required.'')
      else if has_space_test trimmedValue then Some (lit ''Cannot contain spaces.'')
      else None)\<close>

definition validators_telegram :: "jsstring \<Rightarrow> jsstring option" where
  \<open>validators_telegram v =
     (let trimmedValue = trim v in
      if trimmedValue = [] then Some (lit ''Telegram username is required.'')
      else if \<not> telegram_test trimmedValue
        then Some (lit ''Must be 5-32 letters, numbers, or underscores.'')
      else None)\<close>

definition validators_phone :: "jsstring \<Rightarrow> jsstring option" where
  \<open>validators_phone v =
     (let trimmedValue = trim v in
      if trimmedValue = [] then Some (lit ''Phone number is required.'')
      else if \<not> phone_test trimmedValue then Some (lit ''Please enter a valid phone number.'')
      else None)\<close>

definition validators_email :: "jsstring \<Rightarrow> jsstring option" where
  \<open>validators_email v =
     (let trimmedValue = trim v in
      if trimmedValue = [] then Some (lit ''Email address is required.'')
      else if emailRegex_test trimmedValue then None
      else Some (lit ''Please enter a valid email address.''))\<close>

text \<open>
  The body of the \<^verbatim>\<open>try\<close> block of \<^verbatim>\<open>validators.url\<close>. The URL parser is the platform's:
  \<open>URL_hostname u\<close> is \<open>Inl\<close> the exception that \<^verbatim>\<open>new URL(u)\<close> throws, or \<open>Inr\<close> the
  \<^verbatim>\<open>hostname\<close> of the URL object it returns.
\<close>

definition url_try :: "(jsstring \<Rightarrow> error + jsstring) \<Rightarrow> jsstring \<Rightarrow> error + jsstring option" where
  \<open>url_try URL_hostname testUrl =
     (case URL_hostname testUrl of
        Inl e \<Rightarrow> Inl e
      | Inr hostname \<Rightarrow>
          if hostname = [] \<or> \<not> includes' hostname (lit ''.'')
          then Inl (Error (lit ''Invalid hostname''))
          else Inr None)\<close>

definition validators_url :: "(jsstring \<Rightarrow> error + jsstring) \<Rightarrow> jsstring \<Rightarrow> jsstring option" where
  \<open>validators_url URL_hostname v =
     (let trimmedValue = trim v in
      if trimmedValue = [] then Some (lit ''URL is required.'')
      else if startsWith trimmedValue (lit ''/'') \<or> startsWith trimmedValue (lit ''#'') then None
      else
        let testUrl =
          (if \<not> has_http_scheme_test trimmedValue then lit ''https://'' @ trimmedValue
           else trimmedValue)
        in (case url_try URL_hostname testUrl of
              Inr r \<Rightarrow> r
            | Inl _ \<Rightarrow>
                Some (lit ''Please enter a valid URL (e.g., https://example.com) or path (e.g., /contact).'')))\<close>

text \<open>
  \<^verbatim>\<open>getValidationError\<close>. The \<^verbatim>\<open>default\<close> branch of the switch is unreachable for the five
  platform ids of the type.
\<close>

definition getValidationError ::
  "(jsstring \<Rightarrow> error + jsstring) \<Rightarrow> Platform \<Rightarrow> PlatformConfig \<Rightarrow> jsstring option" where
  "getValidationError URL_hostname platformId pConfig =
     (let cid = (if contactId pConfig \<noteq> [] then contactId pConfig else lit '''') in
      case platformId of
        Whatsapp \<Rightarrow> validators_whatsapp cid
      | Messenger \<Rightarrow> validators_messenger cid
      | Telegram \<Rightarrow> validators_telegram cid
      | Phone \<Rightarrow> validators_phone cid
      | Email \<Rightarrow>
          if emailLinkType pConfig = Some Mailto then validators_email cid
          else validators_url URL_hostname cid)"

section \<open>Constants (constants.ts)\<close>

record PlatformEntry =
  id' :: Platform
  name :: jsstring

definition PLATFORMS :: "PlatformEntry list" where
  "PLATFORMS =
     [\<lparr>id' = Whatsapp, name = lit ''WhatsApp''\<rparr>,
      \<lparr>id' = Messenger, name = lit ''Facebook Messenger''\<rparr>,
      \<lparr>id' = Telegram, name = lit ''Telegram''\<rparr>,
      \<lparr>id' = Phone, name = lit ''Phone Call''\<rparr>,
      \<lparr>id' = Email, name = lit ''Email / Contact Form''\<rparr>]"

definition DEFAULT_CONFIG :: WidgetConfig where
  "DEFAULT_CONFIG =
     \<lparr>platforms = (\<lambda>p. case p of
          Whatsapp \<Rightarrow>
            \<lparr>enabled = True, contactId = lit ''15551234567'',
             predefinedMessage = Some (lit ''Hello! I have a question about your services.''),
             emailLinkType = None, customIconSvg = None, color = None\<rparr>
        | Messenger \<Rightarrow>
            \<lparr>enabled = True, contactId = lit ''Meta'', predefinedMessage = None,
             emailLinkType = None, customIconSvg = None, color = None\<rparr>
        | Telegram \<Rightarrow>
            \<lparr>enabled = True, contactId = lit ''mychannel'', predefinedMessage = None,
             emailLinkType = None, customIconSvg = None, color = None\<rparr>
        | Phone \<Rightarrow>
            \<lparr>enabled = False, contactId = lit ''15551234567'', predefinedMessage = None,
             emailLinkType = None, customIconSvg = None, color = None\<rparr>
        | Email \<Rightarrow>
            \<lparr>enabled = False, contactId = lit ''hello@example.com'', predefinedMessage = None,
             emailLinkType = Some Mailto, customIconSvg = None, color = None\<rparr>),
      headerText = lit ''Contact Us'',
      headerBgColor = lit ''#128C7E'',
      headerTextColor = lit ''#FFFFFF'',
      mainButtonColor = lit ''#25D366'',
      mainIconColor = lit ''#FFFFFF'',
      position = BottomRight,
      buttonAnimation = Pulse,
      widgetShape = Rounded,
      menuSpacing = Default\<rparr>"

record PlatformDetails =
  placeholder :: jsstring
  label :: jsstring
  defaultColor :: jsstring
  helpText :: jsstring
  supportsPrefilledMessage :: bool
  cta :: jsstring

definition PLATFORM_DETAILS :: "Platform \<Rightarrow> PlatformDetails" where
  \<open>PLATFORM_DETAILS p =
     (case p of
        Whatsapp \<Rightarrow>
          \<lparr>placeholder = lit ''e.g., 15551234567'',
           label = lit ''WhatsApp Number'',
           defaultColor = lit ''#25D366'',
           helpText = lit ''Country code + number, digits only (e.g., 15551234567).'',
           supportsPrefilledMessage = True,
           cta = lit ''Chat with us''\<rparr>
      | Messenger \<Rightarrow>
          \<lparr>placeholder = lit ''e.g., Meta'',
           label = lit ''Facebook Page ID/Username'',
           defaultColor = lit ''#0084FF'',
           helpText = lit ''Your page\'s unique username or ID.'',
           supportsPrefilledMessage = False,
           cta = lit ''Chat with us''\<rparr>
      | Telegram \<Rightarrow>
          \<lparr>placeholder = lit ''e.g., mychannel'',
           label = lit ''Telegram Username'',
           defaultColor = lit ''#2AABEE'',
           helpText = lit ''Your public Telegram username (without @).'',
           supportsPrefilledMessage = False,
           cta = lit ''Chat with us''\<rparr>
      | Phone \<Rightarrow>
          \<lparr>placeholder = lit ''e.g., 15551234567'',
           label = lit ''Phone Number'',
           defaultColor = lit ''#4CAF50'',
           helpText = lit ''Include country code for international calls.'',
           supportsPrefilledMessage = False,
           cta = lit ''Call us''\<rparr>
      | Email \<Rightarrow>
          \<lparr>placeholder = lit ''e.g., hello@example.com or /contact'',
           label = lit ''Email Address / Contact URL'',
           defaultColor = lit ''#757575'',
           helpText = lit ''Your email address or a link to your contact page.'',
           supportsPrefilledMessage = False,
           cta = lit ''Email us''\<rparr>)\<close>

section \<open>The built-in functions the generator calls\<close>

text \<open>
  \<^verbatim>\<open>encodeURIComponent\<close> (ECMAScript \<^verbatim>\<open>Encode\<close> with the unreserved set
  \<^verbatim>\<open>A-Z a-z 0-9 - _ . ! ~ * ' ( )\<close>): an unreserved code unit is copied; any other is read as
  a code point (a surrogate pair is one code point), whose UTF-8 octets are written as
  \<^verbatim>\<open>%XX\<close> in upper-case hexadecimal. A surrogate without its partner throws a \<^verbatim>\<open>URIError\<close>.
\<close>

definition is_uri_unescaped :: "jschar \<Rightarrow> bool" where
  "is_uri_unescaped c =
     (is_lower c \<or> is_upper c \<or> is_digit c \<or> c = 0x2D \<or> c = 0x5F \<or> c = 0x2E \<or> c = 0x21 \<or>
      c = 0x7E \<or> c = 0x2A \<or> c = 0x27 \<or> c = 0x28 \<or> c = 0x29)"

definition is_leading_surrogate :: "jschar \<Rightarrow> bool" where
  "is_leading_surrogate c = (0xD800 \<le> c \<and> c \<le> 0xDBFF)"

definition is_trailing_surrogate :: "jschar \<Rightarrow> bool" where
  "is_trailing_surrogate c = (0xDC00 \<le> c \<and> c \<le> 0xDFFF)"

definition utf8 :: "nat \<Rightarrow> nat list" where
  "utf8 cp =
     (if cp < 0x80 then [cp]
      else if cp < 0x800 then [0xC0 + cp div 0x40, 0x80 + cp mod 0x40]
      else if cp < 0x10000
        then [0xE0 + cp div 0x1000, 0x80 + cp div 0x40 mod 0x40, 0x80 + cp mod 0x40]
      else [0xF0 + cp div 0x40000, 0x80 + cp div 0x1000 mod 0x40,
            0x80 + cp div 0x40 mod 0x40, 0x80 + cp mod 0x40])"

definition hex_digit :: "nat \<Rightarrow> jschar" where
  "hex_digit n = (if n < 10 then of_nat (0x30 + n) else of_nat (0x41 + (n - 10)))"

definition percent_octet :: "nat \<Rightarrow> jsstring" where
  "percent_octet b = [0x25, hex_digit (b div 16), hex_digit (b mod 16)]"

definition percent_encode :: "nat \<Rightarrow> jsstring" where
  "percent_encode cp = concat (map percent_octet (utf8 cp))"

definition append_result :: "jsstring \<Rightarrow> error + jsstring \<Rightarrow> error + jsstring" where
  "append_result s r = (case r of Inl e \<Rightarrow> Inl e | Inr t \<Rightarrow> Inr (s @ t))"

fun Encode :: "jsstring \<Rightarrow> error + jsstring" where
  "Encode [] = Inr []"
| "Encode [c] =
     (if is_uri_unescaped c then Inr [c]
      else if is_leading_surrogate c \<or> is_trailing_surrogate c then Inl URIError
      else Inr (percent_encode (unat c)))"
| "Encode (c # d # ds) =
     (if is_uri_unescaped c then append_result [c] (Encode (d # ds))
      else if is_trailing_surrogate c then Inl URIError
      else if is_leading_surrogate c then
        (if is_trailing_surrogate d
         then append_result
                (percent_encode ((unat c - 0xD800) * 0x400 + (unat d - 0xDC00) + 0x10000))
                (Encode ds)
         else Inl URIError)
      else append_result (percent_encode (unat c)) (Encode (d # ds)))"

definition encodeURIComponent :: "jsstring \<Rightarrow> error + jsstring" where
  "encodeURIComponent uriComponent = Encode uriComponent"

text \<open>
  \<^verbatim>\<open>s.replace(/\s+/g, '')\<close>: every maximal run of white space is replaced by the empty
  string.
\<close>

function replace_spaces :: "jsstring \<Rightarrow> jsstring" where
  "replace_spaces [] = []"
| "replace_spaces (c # cs) =
     (if is_space c then replace_spaces (dropWhile is_space cs) else c # replace_spaces cs)"
  by pat_completeness auto
termination
  by (relation "measure length") (auto simp add: length_dropWhile_le less_Suc_eq_le)

text \<open>
  \<^verbatim>\<open>a || b\<close> on an optional string: \<^verbatim>\<open>undefined\<close> and the empty string are falsy.
  \<^verbatim>\<open>Array.prototype.map\<close> with a callback that may throw stops at the first exception;
  \<^verbatim>\<open>Array.prototype.join\<close> puts the separator between the elements.
\<close>

definition truthy :: "jsstring option \<Rightarrow> bool" where
  "truthy v = (case v of None \<Rightarrow> False | Some s \<Rightarrow> s \<noteq> [])"

definition or_else :: "jsstring option \<Rightarrow> jsstring \<Rightarrow> jsstring" where
  "or_else v d = (case v of None \<Rightarrow> d | Some s \<Rightarrow> if s \<noteq> [] then s else d)"

fun Array_map :: "('a \<Rightarrow> error + 'b) \<Rightarrow> 'a list \<Rightarrow> error + 'b list" where
  "Array_map f [] = Inr []"
| "Array_map f (x # xs) =
     (case f x of
        Inl e \<Rightarrow> Inl e
      | Inr y \<Rightarrow> (case Array_map f xs of Inl e \<Rightarrow> Inl e | Inr ys \<Rightarrow> Inr (y # ys)))"

fun Array_join :: "jsstring \<Rightarrow> jsstring list \<Rightarrow> jsstring" where
  "Array_join sep [] = []"
| "Array_join sep [x] = x"
| "Array_join sep (x # y # ys) = x @ sep @ Array_join sep (y # ys)"

section \<open>The code generator (CodeOutput)\<close>

definition enabledPlatforms :: "WidgetConfig \<Rightarrow> PlatformEntry list" where
  "enabledPlatforms config = filter (\<lambda>p. enabled (platforms config (id' p))) PLATFORMS"

text \<open>
  \<^verbatim>\<open>getPlatformLink\<close>. The \<^verbatim>\<open>default\<close> branch (\<^verbatim>\<open>'#'\<close>) is unreachable for the five platform
  ids of the type.
\<close>

definition getPlatformLink :: "Platform \<Rightarrow> PlatformConfig \<Rightarrow> error + jsstring" where
  "getPlatformLink platform platformConfig =
     (case platform of
        Whatsapp \<Rightarrow>
          (case predefinedMessage platformConfig of
             None \<Rightarrow> Inr (lit ''https://wa.me/'' @ contactId platformConfig)
           | Some message \<Rightarrow>
               if message \<noteq> [] then
                 (case encodeURIComponent message of
                    Inl e \<Rightarrow> Inl e
                  | Inr encodedMessage \<Rightarrow>
                      Inr (lit ''https://wa.me/'' @ contactId platformConfig @ lit ''?text='' @
                           encodedMessage))
               else Inr (lit ''https://wa.me/'' @ contactId platformConfig))
      | Messenger \<Rightarrow> Inr (lit ''https://m.me/'' @ contactId platformConfig)
      | Telegram \<Rightarrow> Inr (lit ''https://t.me/'' @ contactId platformConfig)
      | Phone \<Rightarrow> Inr (lit ''tel:'' @ replace_spaces (contactId platformConfig))
      | Email \<Rightarrow>
          Inr (if emailLinkType platformConfig = Some Mailto
               then lit ''mailto:'' @ contactId platformConfig
               else contactId platformConfig))"

definition getAnimationCss :: "ButtonAnimation \<Rightarrow> jsstring" where
  \<open>getAnimationCss animation =
     (case animation of
        Pulse \<Rightarrow>
         lit ''\<newline>'' @
         lit ''  .scw-fab {\<newline>'' @
         lit ''    animation: scw-pulse 2s infinite cubic-bezier(0.4, 0, 0.6, 1);\<newline>'' @
         lit ''  }\<newline>'' @
         lit ''  @keyframes scw-pulse {\<newline>'' @
         lit ''    0%, 100% { transform: scale(1); }\<newline>'' @
         lit ''    50% { transform: scale(1.1); }\<newline>'' @
         lit ''  }''
      | Bounce \<Rightarrow>
         lit ''\<newline>'' @
         lit ''  .scw-fab {\<newline>'' @
         lit ''    animation: scw-bounce 1.5s infinite ease-in-out;\<newline>'' @
         lit ''  }\<newline>'' @
         lit ''  @keyframes scw-bounce {\<newline>'' @
         lit ''    0%, 100% { transform: translateY(0); }\<newline>'' @
         lit ''    50% { transform: translateY(-15%); }\<newline>'' @
         lit ''  }''
      | Fade \<Rightarrow>
         lit ''\<newline>'' @
         lit ''  .scw-fab {\<newline>'' @
         lit ''    animation: scw-fade 2.5s infinite linear;\<newline>'' @
         lit ''  }\<newline>'' @
         lit ''  @keyframes scw-fade {\<newline>'' @
         lit ''    0%, 100% { opacity: 1; }\<newline>'' @
         lit ''    50% { opacity: 0.6; }\<newline>'' @
         lit ''  }''
      | Shake \<Rightarrow>
         lit ''\<newline>'' @
         lit ''  .scw-fab {\<newline>'' @
         lit ''    animation: scw-shake 0.8s infinite ease-in-out;\<newline>'' @
         lit ''  }\<newline>'' @
         lit ''  @keyframes scw-shake {\<newline>'' @
         lit ''    0%, 100% { transform: translateX(0); }\<newline>'' @
         lit ''    10%, 30%, 50%, 70%, 90% { transform: translateX(-5px); }\<newline>'' @
         lit ''    20%, 40%, 60%, 80% { transform: translateX(5px); }\<newline>'' @
         lit ''  }''
      | NoAnimation \<Rightarrow> lit '''')\<close>

definition spacingValues :: "MenuSpacing \<Rightarrow> jsstring" where
  "spacingValues s =
     (case s of
        Compact \<Rightarrow> lit ''0.125rem''
      | Default \<Rightarrow> lit ''0.25rem''
      | Relaxed \<Rightarrow> lit ''0.5rem'')"

definition menuSpacingValue :: "WidgetConfig \<Rightarrow> jsstring" where
  "menuSpacingValue config = spacingValues (menuSpacing config)"

definition fabBorderRadius :: "WidgetConfig \<Rightarrow> jsstring" where
  "fabBorderRadius config = (if widgetShape config = Rounded then lit ''50%'' else lit ''16px'')"

definition platformIconBorderRadius :: "WidgetConfig \<Rightarrow> jsstring" where
  "platformIconBorderRadius config =
     (if widgetShape config = Rounded then lit ''50%'' else lit ''8px'')"

definition positionStyles :: "WidgetConfig \<Rightarrow> jsstring" where
  "positionStyles config =
     (if position config = BottomRight then lit ''bottom: 2rem; right: 2rem;''
      else lit ''bottom: 2rem; left: 2rem;'')"

definition menuTransformOrigin :: "WidgetConfig \<Rightarrow> jsstring" where
  "menuTransformOrigin config =
     (if position config = BottomRight then lit ''bottom right'' else lit ''bottom left'')"

text \<open>
  The template \<^verbatim>\<open>html\<close>, piece by piece: the opening of the container and of the menu,
  the header, the opening of the platform list, the callback of \<^verbatim>\<open>enabledPlatforms.map\<close>
  (one link element), the closing of the list and of the menu, the floating action button,
  and the closing of the container. The icon function \<^verbatim>\<open>getIconSvgString\<close> is not among the
  sources and is a parameter; it is called only when the platform has no custom icon.
\<close>

definition html_open :: jsstring where
  \<open>html_open =
      lit ''\<newline>'' @
      lit ''<!-- Social Contact Widget Container -->\<newline>'' @
      lit ''<div class="scw-widget-container" id="scw-widget">\<newline>'' @
      lit ''  <!-- Widget Menu -->\<newline>'' @
      lit ''  <div class="scw-widget-menu" role="dialog" aria-modal="true" aria-labelledby="scw-header-text" aria-hidden="true">\<newline>''\<close>

definition header_markup :: "WidgetConfig \<Rightarrow> jsstring" where
  \<open>header_markup config =
      lit ''    <div class="scw-header" style="background-color: '' @ headerBgColor config @ lit ''; color: '' @ headerTextColor config @ lit '';">\<newline>'' @
      lit ''      <span class="scw-header-text" id="scw-header-text">'' @ headerText config @ lit ''</span>\<newline>'' @
      lit ''      <button class="scw-close-button" aria-label="Close menu">\<newline>'' @
      lit ''        <svg xmlns="http://www.w3.org/2000/svg" width="20" height="20" viewBox="0 0 24 24" fill="none" stroke="'' @ headerTextColor config @ lit ''" stroke-width="2" stroke-linecap="round" stroke-linejoin="round"><line x1="18" y1="6" x2="6" y2="18"></line><line x1="6" y1="6" x2="18" y2="18"></line></svg>\<newline>'' @
      lit ''      </button>\<newline>'' @
      lit ''    </div>\<newline>''\<close>

definition list_open :: jsstring where
  \<open>list_open =
      lit ''    <div class="scw-platform-list">\<newline>'' @
      lit ''      ''\<close>

definition platform_item ::
  "(Platform \<Rightarrow> jsstring \<Rightarrow> jsstring) \<Rightarrow> WidgetConfig \<Rightarrow> PlatformEntry \<Rightarrow> error + jsstring" where
  \<open>platform_item getIconSvgString config p =
     (let platformConfig = platforms config (id' p);
          iconHtml = or_else (customIconSvg platformConfig)
                       (getIconSvgString (id' p) (lit ''#FFFFFF''));
          bgColor = or_else (color platformConfig) (defaultColor (PLATFORM_DETAILS (id' p)))
      in case getPlatformLink (id' p) (platforms config (id' p)) of
           Inl e \<Rightarrow> Inl e
         | Inr link \<Rightarrow> Inr (
         lit ''\<newline>'' @
         lit ''      <a href="'' @ link @ lit ''" target="_blank" rel="noopener noreferrer" class="scw-platform-item">\<newline>'' @
         lit ''        <div class="scw-platform-icon" style="background-color: '' @ bgColor @ lit '';">\<newline>'' @
         lit ''          '' @ iconHtml @ lit ''\<newline>'' @
         lit ''        </div>\<newline>'' @
         lit ''        <div class="scw-platform-info">\<newline>'' @
         lit ''          <p class="scw-platform-name">'' @ name p @ lit ''</p>\<newline>'' @
         lit ''          <p class="scw-platform-cta">'' @ cta (PLATFORM_DETAILS (id' p)) @ lit ''</p>\<newline>'' @
         lit ''        </div>\<newline>'' @
         lit ''        <svg class="scw-arrow-icon" xmlns="http://www.w3.org/2000/svg" width="20" height="20" viewBox="0 0 24 24" fill="none" stroke="currentColor" stroke-width="2" stroke-linecap="round" stroke-linejoin="round"><polyline points="9 18 15 12 9 6"></polyline></svg>\<newline>'' @
         lit ''      </a>''))\<close>

definition platform_list ::
  "(Platform \<Rightarrow> jsstring \<Rightarrow> jsstring) \<Rightarrow> WidgetConfig \<Rightarrow> error + jsstring" where
  "platform_list getIconSvgString config =
     (case Array_map (platform_item getIconSvgString config) (enabledPlatforms config) of
        Inl e \<Rightarrow> Inl e
      | Inr items \<Rightarrow> Inr (Array_join (lit ''\<newline>      '') items))"

definition list_close :: jsstring where
  \<open>list_close =
      lit ''\<newline>'' @
      lit ''    </div>\<newline>'' @
      lit ''  </div>\<newline>''\<close>

definition fab_markup :: "WidgetConfig \<Rightarrow> jsstring" where
  \<open>fab_markup config =
      lit ''  <!-- Floating Action Button -->\<newline>'' @
      lit ''  <button class="scw-fab" aria-label="Open contact menu" aria-haspopup="dialog" aria-expanded="false">\<newline>'' @
      lit ''    <div class="scw-fab-icon-open">\<newline>'' @
      lit ''      <svg xmlns="http://www.w3.org/2000/svg" width="32" height="32" viewBox="0 0 24 24" fill="none" stroke="'' @ mainIconColor config @ lit ''" stroke-width="2" stroke-linecap="round" stroke-linejoin="round"><path d="M21 15a2 2 0 0 1-2 2H7l-4 4V5a2 2 0 0 1 2-2h14a2 2 0 0 1 2 2z"></path></svg>\<newline>'' @
      lit ''    </div>\<newline>'' @
      lit ''    <div class="scw-fab-icon-close">\<newline>'' @
      lit ''      <svg xmlns="http://www.w3.org/2000/svg" width="32" height="32" viewBox="0 0 24 24" fill="none" stroke="'' @ mainIconColor config @ lit ''" stroke-width="2" stroke-linecap="round" stroke-linejoin="round"><line x1="18" y1="6" x2="6" y2="18"></line><line x1="6" y1="6" x2="18" y2="18"></line></svg>\<newline>'' @
      lit ''    </div>\<newline>'' @
      lit ''  </button>\<newline>''\<close>

definition html_close :: jsstring where
  \<open>html_close =
      lit ''</div>''\<close>

definition html ::
  "(Platform \<Rightarrow> jsstring \<Rightarrow> jsstring) \<Rightarrow> WidgetConfig \<Rightarrow> error + jsstring" where
  "html getIconSvgString config =
     (case platform_list getIconSvgString config of
        Inl e \<Rightarrow> Inl e
      | Inr list \<Rightarrow>
          Inr (html_open @ header_markup config @ list_open @ list @ list_close @
               fab_markup config @ html_close))"

text \<open>The template \<^verbatim>\<open>css\<close>: the text before the animation block, the block, the closing tag.\<close>

definition css_head :: "WidgetConfig \<Rightarrow> jsstring" where
  \<open>css_head config =
      lit ''\<newline>'' @
      lit ''<style>\<newline>'' @
      lit ''  .scw-widget-container {\<newline>'' @
      lit ''    position: fixed;\<newline>'' @
      lit ''    z-index: 9999;\<newline>'' @
      lit ''    font-family: -apple-system, BlinkMacSystemFont, "Segoe UI", Roboto, "Helvetica Neue", Arial, sans-serif;\<newline>'' @
      lit ''    '' @ positionStyles config @ lit ''\<newline>'' @
      lit ''  }\<newline>'' @
      lit ''  .scw-widget-menu {\<newline>'' @
      lit ''    width: 300px;\<newline>'' @
      lit ''    margin-bottom: 1rem;\<newline>'' @
      lit ''    background-color: #fff;\<newline>'' @
      lit ''    border-radius: 8px;\<newline>'' @
      lit ''    box-shadow: 0 10px 20px rgba(0,0,0,0.1), 0 3px 6px rgba(0,0,0,0.1);\<newline>'' @
      lit ''    overflow: hidden;\<newline>'' @
      lit ''    transform: scale(0.95);\<newline>'' @
      lit ''    opacity: 0;\<newline>'' @
      lit ''    visibility: hidden;\<newline>'' @
      lit ''    transition: transform 0.2s ease-out, opacity 0.2s ease-out, visibility 0s 0.2s;\<newline>'' @
      lit ''    position: absolute;\<newline>'' @
      lit ''    bottom: 100%;\<newline>'' @
      lit ''    transform-origin: '' @ menuTransformOrigin config @ lit '';\<newline>'' @
      lit ''    '' @ (if position config = BottomRight then lit ''right: 0;'' else lit ''left: 0;'') @ lit ''\<newline>'' @
      lit ''  }\<newline>'' @
      lit ''  .scw-widget-container.open .scw-widget-menu {\<newline>'' @
      lit ''    transform: scale(1);\<newline>'' @
      lit ''    opacity: 1;\<newline>'' @
      lit ''    visibility: visible;\<newline>'' @
      lit ''    transition: transform 0.2s ease-out, opacity 0.2s ease-out;\<newline>'' @
      lit ''  }\<newline>'' @
      lit ''  .scw-header {\<newline>'' @
      lit ''    padding: 1rem;\<newline>'' @
      lit ''    display: flex;\<newline>'' @
      lit ''    justify-content: space-between;\<newline>'' @
      lit ''    align-items: center;\<newline>'' @
      lit ''  }\<newline>'' @
      lit ''  .scw-header-text {\<newline>'' @
      lit ''    font-weight: bold;\<newline>'' @
      lit ''    font-size: 1.1rem;\<newline>'' @
      lit ''  }\<newline>'' @
      lit ''  .scw-close-button {\<newline>'' @
      lit ''    background: none;\<newline>'' @
      lit ''    border: none;\<newline>'' @
      lit ''    cursor: pointer;\<newline>'' @
      lit ''    padding: 0;\<newline>'' @
      lit ''    opacity: 0.8;\<newline>'' @
      lit ''    transition: opacity 0.2s;\<newline>'' @
      lit ''  }\<newline>'' @
      lit ''  .scw-close-button:hover { opacity: 1; }\<newline>'' @
      lit ''  .scw-platform-list {\<newline>'' @
      lit ''    padding: 0.5rem;\<newline>'' @
      lit ''    display: flex;\<newline>'' @
      lit ''    flex-direction: column;\<newline>'' @
      lit ''    gap: '' @ menuSpacingValue config @ lit '';\<newline>'' @
      lit ''  }\<newline>'' @
      lit ''  .scw-platform-item {\<newline>'' @
      lit ''    display: flex;\<newline>'' @
      lit ''    align-items: center;\<newline>'' @
      lit ''    gap: 1rem;\<newline>'' @
      lit ''    padding: 0.75rem;\<newline>'' @
      lit ''    border-radius: 8px;\<newline>'' @
      lit ''    text-decoration: none;\<newline>'' @
      lit ''    color: inherit;\<newline>'' @
      lit ''    transition: background-color 0.2s;\<newline>'' @
      lit ''  }\<newline>'' @
      lit ''  .scw-platform-item:hover { background-color: #f3f4f6; }\<newline>'' @
      lit ''  .scw-platform-icon {\<newline>'' @
      lit ''    width: 40px;\<newline>'' @
      lit ''    height: 40px;\<newline>'' @
      lit ''    border-radius: '' @ platformIconBorderRadius config @ lit '';\<newline>'' @
      lit ''    display: flex;\<newline>'' @
      lit ''    align-items: center;\<newline>'' @
      lit ''    justify-content: center;\<newline>'' @
      lit ''    flex-shrink: 0;\<newline>'' @
      lit ''    color: #fff; /* For custom SVGs using currentColor */\<newline>'' @
      lit ''  }\<newline>'' @
      lit ''  .scw-platform-icon svg {\<newline>'' @
      lit ''    width: 24px;\<newline>'' @
      lit ''    height: 24px;\<newline>'' @
      lit ''  }\<newline>'' @
      lit ''  .scw-platform-info { flex-grow: 1; }\<newline>'' @
      lit ''  .scw-platform-name { font-weight: 600; font-size: 0.95rem; color: #111827; }\<newline>'' @
      lit ''  .scw-platform-cta { font-size: 0.85rem; color: #6b7280; }\<newline>'' @
      lit ''  .scw-arrow-icon { color: #9ca3af; margin-left: auto; }\<newline>'' @
      lit ''  .scw-fab {\<newline>'' @
      lit ''    width: 64px;\<newline>'' @
      lit ''    height: 64px;\<newline>'' @
      lit ''    background-color: '' @ mainButtonColor config @ lit '';\<newline>'' @
      lit ''    border-radius: '' @ fabBorderRadius config @ lit '';\<newline>'' @
      lit ''    border: none;\<newline>'' @
      lit ''    cursor: pointer;\<newline>'' @
      lit ''    display: flex;\<newline>'' @
      lit ''    align-items: center;\<newline>'' @
      lit ''    justify-content: center;\<newline>'' @
      lit ''    box-shadow: 0 4px 12px rgba(0,0,0,0.2);\<newline>'' @
      lit ''    transition: transform 0.2s ease-in-out;\<newline>'' @
      lit ''    position: relative;\<newline>'' @
      lit ''    overflow: hidden;\<newline>'' @
      lit ''  }\<newline>'' @
      lit ''  .scw-fab:hover { transform: scale(1.05); }\<newline>'' @
      lit ''  .scw-fab-icon-open, .scw-fab-icon-close {\<newline>'' @
      lit ''    position: absolute;\<newline>'' @
      lit ''    transition: transform 0.3s ease, opacity 0.3s ease;\<newline>'' @
      lit ''  }\<newline>'' @
      lit ''  .scw-fab-icon-open { transform: rotate(0) scale(1); opacity: 1; }\<newline>'' @
      lit ''  .scw-widget-container.open .scw-fab-icon-open { transform: rotate(-90deg) scale(0); opacity: 0; }\<newline>'' @
      lit ''  .scw-fab-icon-close { transform: rotate(90deg) scale(0); opacity: 0; }\<newline>'' @
      lit ''  .scw-widget-container.open .scw-fab-icon-close { transform: rotate(0) scale(1); opacity: 1; }\<newline>'' @
      lit ''  ''\<close>

definition css_tail :: jsstring where
  \<open>css_tail =
      lit ''\<newline>'' @
      lit ''</style>''\<close>

definition css :: "WidgetConfig \<Rightarrow> jsstring" where
  "css config = css_head config @ getAnimationCss (buttonAnimation config) @ css_tail"

definition js :: jsstring where
  \<open>js =
      lit ''\<newline>'' @
      lit ''<script>\<newline>'' @
      lit ''  document.addEventListener(\'DOMContentLoaded\', function() {\<newline>'' @
      lit ''    const widgetContainer = document.getElementById(\'scw-widget\');\<newline>'' @
      lit ''    if (!widgetContainer) return;\<newline>'' @
      lit ''\<newline>'' @
      lit ''    const fab = widgetContainer.querySelector(\'.scw-fab\');\<newline>'' @
      lit ''    const menu = widgetContainer.querySelector(\'.scw-widget-menu\');\<newline>'' @
      lit ''    const closeButton = widgetContainer.querySelector(\'.scw-close-button\');\<newline>'' @
      lit ''\<newline>'' @
      lit ''    if (!fab || !menu || !closeButton) return;\<newline>'' @
      lit ''\<newline>'' @
      lit ''    const focusableElements = menu.querySelectorAll(\'a[href], button\');\<newline>'' @
      lit ''    const firstFocusableElement = focusableElements[0];\<newline>'' @
      lit ''    const lastFocusableElement = focusableElements[focusableElements.length - 1];\<newline>'' @
      lit ''\<newline>'' @
      lit ''    const openWidget = () => {\<newline>'' @
      lit ''      widgetContainer.classList.add(\'open\');\<newline>'' @
      lit ''      fab.setAttribute(\'aria-expanded\', \'true\');\<newline>'' @
      lit ''      menu.setAttribute(\'aria-hidden\', \'false\');\<newline>'' @
      lit ''      if (firstFocusableElement) {\<newline>'' @
      lit ''        firstFocusableElement.focus();\<newline>'' @
      lit ''      }\<newline>'' @
      lit ''      document.addEventListener(\'keydown\', handleKeyDown);\<newline>'' @
      lit ''    };\<newline>'' @
      lit ''\<newline>'' @
      lit ''    const closeWidget = () => {\<newline>'' @
      lit ''      widgetContainer.classList.remove(\'open\');\<newline>'' @
      lit ''      fab.setAttribute(\'aria-expanded\', \'false\');\<newline>'' @
      lit ''      menu.setAttribute(\'aria-hidden\', \'true\');\<newline>'' @
      lit ''      fab.focus();\<newline>'' @
      lit ''      document.removeEventListener(\'keydown\', handleKeyDown);\<newline>'' @
      lit ''    };\<newline>'' @
      lit ''\<newline>'' @
      lit ''    const handleKeyDown = (e) => {\<newline>'' @
      lit ''      if (e.key === \'Escape\') {\<newline>'' @
      lit ''        closeWidget();\<newline>'' @
      lit ''        return;\<newline>'' @
      lit ''      }\<newline>'' @
      lit ''      \<newline>'' @
      lit ''      if (!focusableElements || focusableElements.length === 0) return;\<newline>'' @
      lit ''\<newline>'' @
      lit ''      if (e.key === \'Tab\') {\<newline>'' @
      lit ''        if (e.shiftKey) { // Shift + Tab\<newline>'' @
      lit ''          if (document.activeElement === firstFocusableElement) {\<newline>'' @
      lit ''            e.preventDefault();\<newline>'' @
      lit ''            lastFocusableElement.focus();\<newline>'' @
      lit ''          }\<newline>'' @
      lit ''        } else { // Tab\<newline>'' @
      lit ''          if (document.activeElement === lastFocusableElement) {\<newline>'' @
      lit ''            e.preventDefault();\<newline>'' @
      lit ''            firstFocusableElement.focus();\<newline>'' @
      lit ''          }\<newline>'' @
      lit ''        }\<newline>'' @
      lit ''      }\<newline>'' @
      lit ''    };\<newline>'' @
      lit ''\<newline>'' @
      lit ''    fab.addEventListener(\'click\', () => {\<newline>'' @
      lit ''      const isOpen = widgetContainer.classList.contains(\'open\');\<newline>'' @
      lit ''      if (isOpen) {\<newline>'' @
      lit ''        closeWidget();\<newline>'' @
      lit ''      } else {\<newline>'' @
      lit ''        openWidget();\<newline>'' @
      lit ''      }\<newline>'' @
      lit ''    });\<newline>'' @
      lit ''\<newline>'' @
      lit ''    closeButton.addEventListener(\'click\', closeWidget);\<newline>'' @
      lit ''  });\<newline>'' @
      lit ''</script>''\<close>

definition start_marker :: jsstring where
  \<open>start_marker =
      lit ''<!-- Start Social Contact Widget -->\<newline>''\<close>

definition end_marker :: jsstring where
  \<open>end_marker =
      lit ''\<newline>'' @
      lit ''<!-- End Social Contact Widget -->''\<close>

definition generateWidgetCode ::
  "(Platform \<Rightarrow> jsstring \<Rightarrow> jsstring) \<Rightarrow> WidgetConfig \<Rightarrow> error + jsstring" where
  "generateWidgetCode getIconSvgString config =
     (case html getIconSvgString config of
        Inl e \<Rightarrow> Inl e
      | Inr h \<Rightarrow>
          Inr (start_marker @ h @ lit ''\<newline>'' @ css config @ lit ''\<newline>'' @ js @ end_marker))"

section \<open>Editing a platform field (Configurator)\<close>

text \<open>
  \<^verbatim>\<open>handlePlatformFieldChange(platformId, field, value)\<close>: a field of \<^verbatim>\<open>PlatformConfig\<close> with
  the value written to it. The function is the updater passed to \<^verbatim>\<open>setConfig\<close>.
\<close>

datatype PlatformField =
  Field_enabled bool
| Field_contactId jsstring
| Field_predefinedMessage "jsstring option"
| Field_emailLinkType "EmailLinkType option"
| Field_customIconSvg "jsstring option"
| Field_color "jsstring option"

fun set_field :: "PlatformField \<Rightarrow> PlatformConfig \<Rightarrow> PlatformConfig" where
  "set_field (Field_enabled v) pc = pc\<lparr>enabled := v\<rparr>"
| "set_field (Field_contactId v) pc = pc\<lparr>contactId := v\<rparr>"
| "set_field (Field_predefinedMessage v) pc = pc\<lparr>predefinedMessage := v\<rparr>"
| "set_field (Field_emailLinkType v) pc = pc\<lparr>emailLinkType := v\<rparr>"
| "set_field (Field_customIconSvg v) pc = pc\<lparr>customIconSvg := v\<rparr>"
| "set_field (Field_color v) pc = pc\<lparr>color := v\<rparr>"

fun is_emailLinkType :: "PlatformField \<Rightarrow> bool" where
  "is_emailLinkType (Field_emailLinkType v) = True"
| "is_emailLinkType f = False"

definition handlePlatformFieldChange ::
  "Platform \<Rightarrow> PlatformField \<Rightarrow> WidgetConfig \<Rightarrow> WidgetConfig" where
  "handlePlatformFieldChange platformId field prevConfig =
     (let updatedPlatformConfig = set_field field (platforms prevConfig platformId);
          updatedPlatformConfig =
            (if platformId = Email \<and> is_emailLinkType field
             then updatedPlatformConfig\<lparr>contactId := lit ''''\<rparr>
             else updatedPlatformConfig)
      in prevConfig\<lparr>platforms := (platforms prevConfig)(platformId := updatedPlatformConfig)\<rparr>)"

definition handlePlatformToggle :: "Platform \<Rightarrow> WidgetConfig \<Rightarrow> WidgetConfig" where
  "handlePlatformToggle platformId prevConfig =
     prevConfig\<lparr>platforms := (platforms prevConfig)
       (platformId := (platforms prevConfig platformId)
          \<lparr>enabled := \<not> enabled (platforms prevConfig platformId)\<rparr>)\<rparr>"

section \<open>Notions used in the statements\<close>

text \<open>
  A string is well formed when every surrogate code unit stands in a pair, a leading one
  followed by a trailing one (what \<^verbatim>\<open>String.prototype.isWellFormed\<close> tests).
\<close>

fun well_formed :: "jsstring \<Rightarrow> bool" where
  "well_formed [] = True"
| "well_formed [c] = (\<not> is_leading_surrogate c \<and> \<not> is_trailing_surrogate c)"
| "well_formed (c # d # ds) =
     (if is_leading_surrogate c then is_trailing_surrogate d \<and> well_formed ds
      else \<not> is_trailing_surrogate c \<and> well_formed (d # ds))"

text \<open>
  The code units of a URL-encoded text: the unreserved ones and the percent sign.
\<close>

definition is_url_safe :: "jschar \<Rightarrow> bool" where
  "is_url_safe c = (is_uri_unescaped c \<or> c = 0x25)"

text \<open>The number of places of a text at which a given word starts.\<close>

fun count_occurrences :: "jsstring \<Rightarrow> jsstring \<Rightarrow> nat" where
  "count_occurrences w [] = 0"
| "count_occurrences w (c # cs) =
     (if startsWith (c # cs) w then 1 else 0) + count_occurrences w cs"

section \<open>Properties of the string operations\<close>

lemma lit_Nil: "lit [] = []"
  by (simp add: lit_def)

lemma trim_Nil: "trim [] = []"
  by (simp add: trim_def)

lemma trim_all_space: "list_all is_space s \<Longrightarrow> trim s = []"
proof -
  assume "list_all is_space s"
  then have "dropWhile is_space s = []"
    by (induction s) simp_all
  then show ?thesis
    by (simp add: trim_def del: dropWhile_eq_Nil_conv)
qed

lemma trim_empty_iff: "trim s = [] \<longleftrightarrow> list_all is_space s"
proof
  assume "trim s = []"
  then have "dropWhile is_space (rev (dropWhile is_space s)) = []"
    by (simp add: trim_def)
  then have "\<forall>c\<in>set (dropWhile is_space s). is_space c"
    by simp
  then have "dropWhile is_space s = []"
    by (metis hd_dropWhile hd_in_set)
  then show "list_all is_space s"
    by (simp add: list_all_iff)
qed (rule trim_all_space)

lemma class_repeat_iff:
  "class_repeat C lo hi k s \<longleftrightarrow>
     list_all C s \<and> lo \<le> k + length s \<and>
     (case hi of None \<Rightarrow> True | Some h \<Rightarrow> s = [] \<or> k + length s \<le> h)"
proof (induction s arbitrary: k)
  case Nil
  show ?case by (simp split: option.splits)
next
  case (Cons c cs)
  show ?case
  proof (cases hi)
    case None
    with Cons show ?thesis by simp
  next
    case (Some h)
    with Cons show ?thesis by (cases cs) (simp_all, linarith+)
  qed
qed

lemma digits_only_test_iff: "digits_only_test s \<longleftrightarrow> s \<noteq> [] \<and> list_all is_digit s"
  by (cases s) (simp_all add: digits_only_test_def class_repeat_iff)

lemma telegram_test_iff:
  "telegram_test s \<longleftrightarrow> list_all is_word_char s \<and> 5 \<le> length s \<and> length s \<le> 32"
  by (cases s) (simp_all add: telegram_test_def class_repeat_iff)

section \<open>The validators accept and reject\<close>

lemma getValidationError_cid:
  "(if contactId pc \<noteq> [] then contactId pc else lit '''') = contactId pc"
  by (simp add: lit_def)

text \<open>
  Claim C4. For every string, the WhatsApp validator returns no error exactly when the
  trimmed string is non-empty, holds ASCII digits only and has between 7 and 15 code units;
  \<^verbatim>\<open>getValidationError\<close> applies it to the contact id as it is. It rejects \<^verbatim>\<open>+1 555\<close> and
  accepts \<^verbatim>\<open>15551234567\<close>.
\<close>

theorem validators_whatsapp_accepts_iff:
  \<open>(validators_whatsapp v = None \<longleftrightarrow>
      trim v \<noteq> [] \<and> list_all is_digit (trim v) \<and> 7 \<le> length (trim v) \<and> length (trim v) \<le> 15)
   \<and> getValidationError U Whatsapp pc = validators_whatsapp (contactId pc)
   \<and> validators_whatsapp (lit ''+1 555'') =
        Some (lit ''Please enter digits only, without "+" or spaces.'')
   \<and> validators_whatsapp (lit ''15551234567'') = None\<close>
proof -
  have general: "validators_whatsapp v = None \<longleftrightarrow>
      trim v \<noteq> [] \<and> list_all is_digit (trim v) \<and> 7 \<le> length (trim v) \<and> length (trim v) \<le> 15"
    by (auto simp add: validators_whatsapp_def Let_def digits_only_test_iff)
  have dispatch: "getValidationError U Whatsapp pc = validators_whatsapp (contactId pc)"
    by (simp add: getValidationError_def getValidationError_cid)
  have bad: \<open>validators_whatsapp (lit ''+1 555'') =
        Some (lit ''Please enter digits only, without "+" or spaces.'')\<close>
    by (simp add: validators_whatsapp_def lit_def trim_def is_space_def digits_only_test_def
        is_digit_def)
  have good: "validators_whatsapp (lit ''15551234567'') = None"
    by (simp add: validators_whatsapp_def lit_def trim_def is_space_def digits_only_test_def
        is_digit_def)
  from general dispatch bad good show ?thesis by blast
qed

text \<open>
  Claim C5. For every string, the Telegram validator returns no error exactly when every
  code unit of the trimmed string is in \<^verbatim>\<open>[a-zA-Z0-9_]\<close> and its length is between 5 and 32;
  it rejects \<^verbatim>\<open>ab\<close> and accepts \<^verbatim>\<open>my_channel1\<close>.
\<close>

theorem validators_telegram_accepts_iff:
  \<open>(validators_telegram v = None \<longleftrightarrow>
      list_all is_word_char (trim v) \<and> 5 \<le> length (trim v) \<and> length (trim v) \<le> 32)
   \<and> getValidationError U Telegram pc = validators_telegram (contactId pc)
   \<and> validators_telegram (lit ''ab'') =
        Some (lit ''Must be 5-32 letters, numbers, or underscores.'')
   \<and> validators_telegram (lit ''my_channel1'') = None\<close>
proof -
  have general: "validators_telegram v = None \<longleftrightarrow>
      list_all is_word_char (trim v) \<and> 5 \<le> length (trim v) \<and> length (trim v) \<le> 32"
    by (auto simp add: validators_telegram_def Let_def telegram_test_iff)
  have dispatch: "getValidationError U Telegram pc = validators_telegram (contactId pc)"
    by (simp add: getValidationError_def getValidationError_cid)
  have bad: \<open>validators_telegram (lit ''ab'') =
        Some (lit ''Must be 5-32 letters, numbers, or underscores.'')\<close>
    by (simp add: validators_telegram_def lit_def trim_def is_space_def telegram_test_def
        is_word_char_def is_digit_def is_lower_def is_upper_def)
  have good: "validators_telegram (lit ''my_channel1'') = None"
    by (simp add: validators_telegram_def lit_def trim_def is_space_def telegram_test_def
        is_word_char_def is_digit_def is_lower_def is_upper_def)
  from general dispatch bad good show ?thesis by blast
qed

lemma lit_Cons_neq_Nil: "lit (c # s) \<noteq> []"
  by (simp add: lit_def)

lemma validators_url_catches:
  assumes "url_try U (if \<not> has_http_scheme_test (trim v) then lit ''https://'' @ trim v else trim v) = Inl e"
    and "trim v \<noteq> []"
    and "\<not> startsWith (trim v) (lit ''/'')" and "\<not> startsWith (trim v) (lit ''#'')"
  shows \<open>validators_url U v =
    Some (lit ''Please enter a valid URL (e.g., https://example.com) or path (e.g., /contact).'')\<close>
  using assms by (simp add: validators_url_def Let_def)

text \<open>
  Claim C6. For every platform id and every platform configuration whose contact id trims
  to the empty string (by \<open>trim_empty_iff\<close>: the empty string and every string of white
  space only), \<^verbatim>\<open>getValidationError\<close> returns a non-empty message, whatever the URL parser
  does. The validators are total: the one operation that throws, \<^verbatim>\<open>new URL\<close>, and the
  \<^verbatim>\<open>throw\<close> of the source stand inside the \<^verbatim>\<open>try\<close> block, whose exceptions
  \<open>validators_url\<close> turns into a message (\<open>validators_url_catches\<close>).
\<close>

theorem getValidationError_empty:
  assumes "trim (contactId pc) = []"
  shows "\<exists>msg. getValidationError U p pc = Some msg \<and> msg \<noteq> []"
proof -
  have cid: "trim (if contactId pc \<noteq> [] then contactId pc else lit '''') = []"
    using assms by (simp add: getValidationError_cid)
  show ?thesis
  proof (cases p)
    case Messenger
    with cid show ?thesis
      by (simp add: getValidationError_def validators_messenger_def Let_def lit_Cons_neq_Nil)
  next
    case Whatsapp
    with cid show ?thesis
      by (simp add: getValidationError_def validators_whatsapp_def Let_def lit_Cons_neq_Nil)
  next
    case Telegram
    with cid show ?thesis
      by (simp add: getValidationError_def validators_telegram_def Let_def lit_Cons_neq_Nil)
  next
    case Phone
    with cid show ?thesis
      by (simp add: getValidationError_def validators_phone_def Let_def lit_Cons_neq_Nil)
  next
    case Email
    with cid show ?thesis
      by (simp add: getValidationError_def validators_email_def validators_url_def Let_def
          lit_Cons_neq_Nil)
  qed
qed

theorem getValidationError_empty_witness:
  "trim (lit ''  '') = [] \<and>
   (\<exists>msg. getValidationError (\<lambda>u. Inl TypeError) Email
      \<lparr>enabled = True, contactId = lit ''  '', predefinedMessage = None, emailLinkType = None,
       customIconSvg = None, color = None\<rparr> = Some msg \<and> msg \<noteq> [])"
proof -
  have t: "trim (lit ''  '') = []"
    by (simp add: trim_def lit_def is_space_def)
  then have "trim (contactId \<lparr>enabled = True, contactId = lit ''  '', predefinedMessage = None,
      emailLinkType = None, customIconSvg = None, color = None\<rparr>) = []"
    by simp
  from getValidationError_empty [OF this] t show ?thesis by blast
qed

section \<open>The built-in functions\<close>

lemma filter_dropWhile_not: "filter (\<lambda>c. \<not> P c) (dropWhile P xs) = filter (\<lambda>c. \<not> P c) xs"
  by (induction xs) simp_all

lemma replace_spaces_filter: "replace_spaces s = filter (\<lambda>c. \<not> is_space c) s"
  by (induction s rule: replace_spaces.induct) (simp_all add: filter_dropWhile_not)

lemma unescaped_not_surrogate:
  "is_uri_unescaped c \<Longrightarrow> \<not> is_leading_surrogate c \<and> \<not> is_trailing_surrogate c"
  by (auto simp add: is_uri_unescaped_def is_leading_surrogate_def is_trailing_surrogate_def
      is_lower_def is_upper_def is_digit_def word_le_nat_alt)

lemma leading_not_trailing: "is_leading_surrogate c \<Longrightarrow> \<not> is_trailing_surrogate c"
  by (auto simp add: is_leading_surrogate_def is_trailing_surrogate_def word_le_nat_alt)

lemma append_result_Inr_iff: "(\<exists>t. append_result s r = Inr t) \<longleftrightarrow> (\<exists>t. r = Inr t)"
  by (cases r) (simp_all add: append_result_def)

text \<open>
  \<^verbatim>\<open>encodeURIComponent\<close> returns exactly on the well-formed strings; on any other it throws
  a \<^verbatim>\<open>URIError\<close>.
\<close>

lemma Encode_returns_iff: "(\<exists>enc. Encode s = Inr enc) \<longleftrightarrow> well_formed s"
proof (induction s rule: Encode.induct)
  case 1
  show ?case by simp
next
  case (2 c)
  show ?case using unescaped_not_surrogate [of c] by auto
next
  case (3 c d ds)
  show ?case
    using 3 unescaped_not_surrogate [of c] leading_not_trailing [of c]
    by (simp add: append_result_Inr_iff)
qed

lemma Encode_throws: "Encode s = Inl e \<Longrightarrow> e = URIError"
  by (induction s rule: Encode.induct) (auto simp add: append_result_def split: if_splits sum.splits)

lemma encodeURIComponent_returns_iff:
  "(\<exists>enc. encodeURIComponent s = Inr enc) \<longleftrightarrow> well_formed s"
  by (simp add: encodeURIComponent_def Encode_returns_iff)

lemma encodeURIComponent_throws_iff:
  "encodeURIComponent s = Inl URIError \<longleftrightarrow> \<not> well_formed s"
proof -
  have "encodeURIComponent s = Inl URIError \<longleftrightarrow> \<not> (\<exists>enc. encodeURIComponent s = Inr enc)"
    using Encode_throws [of s] by (cases "Encode s") (auto simp add: encodeURIComponent_def)
  then show ?thesis by (simp add: encodeURIComponent_returns_iff)
qed

text \<open>The text that \<^verbatim>\<open>encodeURIComponent\<close> returns holds unreserved code units and
  percent signs only.\<close>

lemma hex_digit_unescaped: "n < 16 \<Longrightarrow> is_uri_unescaped (hex_digit n)"
proof (cases "n < 10")
  case True
  assume "n < 16"
  have "unat (of_nat (0x30 + n) :: jschar) = 0x30 + n"
    using True by (intro of_nat_inverse [OF refl]) simp
  with True have "is_digit (hex_digit n)"
    by (simp add: hex_digit_def is_digit_def word_le_nat_alt)
  then show ?thesis
    by (simp add: is_uri_unescaped_def)
next
  case False
  assume n: "n < 16"
  have "unat (of_nat (0x41 + (n - 10)) :: jschar) = 0x41 + (n - 10)"
    using n by (intro of_nat_inverse [OF refl]) simp
  with False n have "is_upper (hex_digit n)"
    by (simp add: hex_digit_def is_upper_def word_le_nat_alt)
  then show ?thesis
    by (simp add: is_uri_unescaped_def)
qed

lemma percent_octet_safe: "b < 256 \<Longrightarrow> list_all is_url_safe (percent_octet b)"
proof -
  assume b: "b < 256"
  then have "b div 16 < 16" and "b mod 16 < 16"
    by simp_all
  then show ?thesis
    by (simp add: percent_octet_def is_url_safe_def hex_digit_unescaped)
qed

lemma utf8_octets:
  assumes "cp < 0x110000"
  shows "list_all (\<lambda>b. b < 256) (utf8 cp)"
proof -
  have m: "x mod 0x40 < (0x80 :: nat)" for x
    by (rule less_trans [OF mod_less_divisor]) simp_all
  have d: "x < n * q \<Longrightarrow> x div q < n" for x n q :: nat
    by (simp add: less_mult_imp_div_less)
  have 2: "cp < 0x800 \<Longrightarrow> cp div 0x40 < 0x40"
    by (rule d) simp
  have 3: "cp < 0x10000 \<Longrightarrow> cp div 0x1000 < 0x20"
    by (rule d) simp
  have 4: "cp div 0x40000 < 0x10"
    using assms by (intro d) simp
  from 2 3 4 show ?thesis
    by (simp add: utf8_def m)
qed

lemma percent_encode_safe:
  assumes "cp < 0x110000"
  shows "list_all is_url_safe (percent_encode cp)"
proof -
  have "is_url_safe x" if "b \<in> set (utf8 cp)" and "x \<in> set (percent_octet b)" for b x
  proof -
    from assms that(1) have "b < 256"
      using utf8_octets [of cp] by (simp add: list_all_iff)
    then show ?thesis
      using percent_octet_safe [of b] that(2) by (simp add: list_all_iff)
  qed
  then show ?thesis
    by (auto simp add: percent_encode_def list_all_iff)
qed

lemma append_result_Inr: "append_result s r = Inr enc \<Longrightarrow> \<exists>t. r = Inr t \<and> enc = s @ t"
  by (cases r) (simp_all add: append_result_def)

lemma unat_code_unit: "unat (c :: jschar) < 0x110000"
proof -
  have "unat c < 2 ^ 16"
    using unsigned_less [of c] by simp
  then show ?thesis by simp
qed

lemma pair_code_point:
  assumes "is_leading_surrogate c" and "is_trailing_surrogate d"
  shows "(unat c - 0xD800) * 0x400 + (unat d - 0xDC00) + 0x10000 < 0x110000"
proof -
  from assms(1) have "unat c \<le> 0xDBFF"
    by (simp add: is_leading_surrogate_def word_le_nat_alt)
  then have "unat c - 0xD800 \<le> 0x3FF"
    by simp
  then have "(unat c - 0xD800) * 0x400 \<le> 0x3FF * 0x400"
    by (rule mult_le_mono1)
  moreover from assms(2) have "unat d \<le> 0xDFFF"
    by (simp add: is_trailing_surrogate_def word_le_nat_alt)
  then have "unat d - 0xDC00 \<le> 0x3FF"
    by simp
  ultimately show ?thesis
    by simp
qed

lemma unescaped_safe: "is_uri_unescaped c \<Longrightarrow> is_url_safe c"
  by (simp add: is_url_safe_def)

lemma Encode_safe: "Encode s = Inr enc \<Longrightarrow> list_all is_url_safe enc"
proof (induction s arbitrary: enc rule: Encode.induct)
  case 1
  then show ?case by simp
next
  case (2 c)
  show ?case
  proof (cases "is_uri_unescaped c")
    case True
    with 2 have "enc = [c]" by simp
    with True show ?thesis by (simp add: unescaped_safe)
  next
    case False
    with 2 have "enc = percent_encode (unat c)"
      by (simp split: if_splits)
    then show ?thesis
      by (simp add: percent_encode_safe unat_code_unit)
  qed
next
  case (3 c d ds)
  note eq = "3.prems"
  show ?case
  proof (cases "is_uri_unescaped c")
    case True
    with eq have "append_result [c] (Encode (d # ds)) = Inr enc"
      by simp
    then obtain t where t: "Encode (d # ds) = Inr t" "enc = [c] @ t"
      using append_result_Inr by blast
    from "3.IH"(1) [OF True t(1)] True t(2) show ?thesis
      by (simp add: unescaped_safe)
  next
    case False
    show ?thesis
    proof (cases "is_trailing_surrogate c")
      case True
      with False eq show ?thesis by simp
    next
      case nt: False
      show ?thesis
      proof (cases "is_leading_surrogate c")
        case True
        show ?thesis
        proof (cases "is_trailing_surrogate d")
          case d: True
          let ?cp = "(unat c - 0xD800) * 0x400 + (unat d - 0xDC00) + 0x10000"
          from False nt True d eq have "append_result (percent_encode ?cp) (Encode ds) = Inr enc"
            by simp
          then obtain t where t: "Encode ds = Inr t" "enc = percent_encode ?cp @ t"
            using append_result_Inr by blast
          from "3.IH"(2) [OF False nt True d t(1)] t(2) show ?thesis
            by (simp add: percent_encode_safe [OF pair_code_point [OF True d]])
        next
          case d: False
          with False nt True eq show ?thesis by simp
        qed
      next
        case nl: False
        from False nt nl eq have "append_result (percent_encode (unat c)) (Encode (d # ds)) = Inr enc"
          by simp
        then obtain t where t: "Encode (d # ds) = Inr t" "enc = percent_encode (unat c) @ t"
          using append_result_Inr by blast
        from "3.IH"(3) [OF False nt nl t(1)] t(2) show ?thesis
          by (simp add: percent_encode_safe unat_code_unit)
      qed
    qed
  qed
qed

lemma encodeURIComponent_safe:
  "encodeURIComponent s = Inr enc \<Longrightarrow> list_all is_url_safe enc"
  by (simp add: encodeURIComponent_def Encode_safe)

lemma encodeURIComponent_non_ascii: "encodeURIComponent [0xE9, 0x20AC, 0xD83D, 0xDE00] =
    Inr (lit ''%C3%A9%E2%82%AC%F0%9F%98%80'')"
  by (simp add: encodeURIComponent_def lit_def is_uri_unescaped_def is_lower_def is_upper_def
      is_digit_def append_result_def is_leading_surrogate_def is_trailing_surrogate_def
      percent_encode_def percent_octet_def utf8_def hex_digit_def)

lemma encodeURIComponent_reserved:
  "encodeURIComponent (lit ''Hi there & you?'') = Inr (lit ''Hi%20there%20%26%20you%3F'')"
  by (simp add: encodeURIComponent_def lit_def is_uri_unescaped_def is_lower_def is_upper_def
      is_digit_def append_result_def is_leading_surrogate_def is_trailing_surrogate_def
      percent_encode_def percent_octet_def utf8_def hex_digit_def)

lemma encodeURIComponent_Hi: "encodeURIComponent (lit ''Hi'') = Inr (lit ''Hi'')"
  by (simp add: encodeURIComponent_def lit_def is_uri_unescaped_def is_lower_def is_upper_def
      is_digit_def append_result_def)

lemma encodeURIComponent_lone_surrogate: "encodeURIComponent [0xD83D] = Inl URIError"
  by (simp add: encodeURIComponent_def is_uri_unescaped_def is_lower_def is_upper_def
      is_digit_def is_leading_surrogate_def is_trailing_surrogate_def)

lemma replace_spaces_example: "replace_spaces (lit ''+1 (555) 123-4567'') = lit ''+1(555)123-4567''"
  by (simp add: replace_spaces_filter lit_def is_space_def)

section \<open>The outbound links\<close>

lemma whatsapp_link_throws:
  assumes "predefinedMessage pc = Some m" and "m \<noteq> []" and "\<not> well_formed m"
  shows "getPlatformLink Whatsapp pc = Inl URIError"
proof -
  from assms have "encodeURIComponent m = Inl URIError"
    by (simp add: encodeURIComponent_throws_iff)
  with assms show ?thesis
    by (simp add: getPlatformLink_def)
qed

lemma getPlatformLink_throws_only_whatsapp:
  assumes "getPlatformLink p pc = Inl e"
  shows "p = Whatsapp \<and> e = URIError \<and>
    (\<exists>m. predefinedMessage pc = Some m \<and> m \<noteq> [] \<and> \<not> well_formed m)"
proof -
  from assms have p: "p = Whatsapp"
    by (cases p) (simp_all add: getPlatformLink_def)
  with assms obtain m where m: "predefinedMessage pc = Some m" "m \<noteq> []"
      "encodeURIComponent m = Inl e"
    by (auto simp add: getPlatformLink_def split: option.splits if_splits sum.splits)
  then have "e = URIError"
    by (simp add: encodeURIComponent_def Encode_throws)
  with m p show ?thesis
    by (auto simp add: encodeURIComponent_throws_iff)
qed

text \<open>
  Claim C2, corrected. As stated the claim fails: for a set, non-empty message that holds
  an unpaired surrogate \<^verbatim>\<open>encodeURIComponent\<close> throws a \<^verbatim>\<open>URIError\<close> and no link is built
  (the example after the theorem). What holds: for every WhatsApp configuration
  whose pre-filled message is absent, empty or well formed, the link is \<^verbatim>\<open>https://wa.me/\<close>
  followed by the contact id, and by \<^verbatim>\<open>?text=\<close> and the URL-encoded message exactly when the
  message is set and not empty; the encoding exists for every well-formed message and holds
  unreserved code units and percent signs only; for a non-empty message that is not well
  formed the call throws \<^verbatim>\<open>URIError\<close>. For the contact id \<^verbatim>\<open>15551234567\<close> and the message
  \<^verbatim>\<open>Hi\<close> the link is \<^verbatim>\<open>https://wa.me/15551234567?text=Hi\<close>. The last two conjuncts fix the
  encoding itself on a text with reserved characters and on one with non-ASCII code points.
\<close>

theorem getPlatformLink_whatsapp:
  "getPlatformLink Whatsapp pc =
     (case predefinedMessage pc of
        None \<Rightarrow> Inr (lit ''https://wa.me/'' @ contactId pc)
      | Some m \<Rightarrow>
          if m = [] then Inr (lit ''https://wa.me/'' @ contactId pc)
          else append_result (lit ''https://wa.me/'' @ contactId pc @ lit ''?text='')
                 (encodeURIComponent m))
   \<and> (\<not> truthy (predefinedMessage pc) \<longrightarrow>
      getPlatformLink Whatsapp pc = Inr (lit ''https://wa.me/'' @ contactId pc))
   \<and> (\<forall>m enc. predefinedMessage pc = Some m \<and> m \<noteq> [] \<and> encodeURIComponent m = Inr enc \<longrightarrow>
         getPlatformLink Whatsapp pc =
           Inr (lit ''https://wa.me/'' @ contactId pc @ lit ''?text='' @ enc))
   \<and> (\<forall>m. predefinedMessage pc = Some m \<and> m \<noteq> [] \<and> well_formed m \<longrightarrow>
         (\<exists>enc. encodeURIComponent m = Inr enc \<and> list_all is_url_safe enc \<and>
            getPlatformLink Whatsapp pc =
              Inr (lit ''https://wa.me/'' @ contactId pc @ lit ''?text='' @ enc)))
   \<and> (\<forall>m. predefinedMessage pc = Some m \<and> m \<noteq> [] \<and> \<not> well_formed m \<longrightarrow>
         getPlatformLink Whatsapp pc = Inl URIError)
   \<and> (getPlatformLink Whatsapp pc = Inr (lit ''https://wa.me/'' @ contactId pc)
         \<longleftrightarrow> \<not> truthy (predefinedMessage pc))
   \<and> (contactId pc = lit ''15551234567'' \<and> predefinedMessage pc = Some (lit ''Hi'') \<longrightarrow>
         getPlatformLink Whatsapp pc = Inr (lit ''https://wa.me/15551234567?text=Hi''))
   \<and> encodeURIComponent (lit ''Hi there & you?'') = Inr (lit ''Hi%20there%20%26%20you%3F'')
   \<and> encodeURIComponent [0xE9, 0x20AC, 0xD83D, 0xDE00] =
        Inr (lit ''%C3%A9%E2%82%AC%F0%9F%98%80'')"
proof -
  have equation: "getPlatformLink Whatsapp pc =
     (case predefinedMessage pc of
        None \<Rightarrow> Inr (lit ''https://wa.me/'' @ contactId pc)
      | Some m \<Rightarrow>
          if m = [] then Inr (lit ''https://wa.me/'' @ contactId pc)
          else append_result (lit ''https://wa.me/'' @ contactId pc @ lit ''?text='')
                 (encodeURIComponent m))"
    by (simp add: getPlatformLink_def append_result_def split: option.splits sum.splits)
  have well: "\<forall>m. predefinedMessage pc = Some m \<and> m \<noteq> [] \<and> well_formed m \<longrightarrow>
         (\<exists>enc. encodeURIComponent m = Inr enc \<and> list_all is_url_safe enc \<and>
            getPlatformLink Whatsapp pc =
              Inr (lit ''https://wa.me/'' @ contactId pc @ lit ''?text='' @ enc))"
  proof (intro allI impI)
    fix m
    assume m: "predefinedMessage pc = Some m \<and> m \<noteq> [] \<and> well_formed m"
    then obtain enc where enc: "encodeURIComponent m = Inr enc"
      using encodeURIComponent_returns_iff by blast
    then have "list_all is_url_safe enc"
      by (rule encodeURIComponent_safe)
    moreover from m enc have "getPlatformLink Whatsapp pc =
        Inr (lit ''https://wa.me/'' @ contactId pc @ lit ''?text='' @ enc)"
      by (simp add: getPlatformLink_def)
    ultimately show "\<exists>enc. encodeURIComponent m = Inr enc \<and> list_all is_url_safe enc \<and>
            getPlatformLink Whatsapp pc =
              Inr (lit ''https://wa.me/'' @ contactId pc @ lit ''?text='' @ enc)"
      using enc by blast
  qed
  have throws: "\<forall>m. predefinedMessage pc = Some m \<and> m \<noteq> [] \<and> \<not> well_formed m \<longrightarrow>
         getPlatformLink Whatsapp pc = Inl URIError"
    using whatsapp_link_throws by blast
  have unset: "\<not> truthy (predefinedMessage pc) \<longrightarrow>
      getPlatformLink Whatsapp pc = Inr (lit ''https://wa.me/'' @ contactId pc)"
    by (simp add: getPlatformLink_def truthy_def split: option.splits)
  have set_ok: "\<forall>m enc. predefinedMessage pc = Some m \<and> m \<noteq> [] \<and> encodeURIComponent m = Inr enc \<longrightarrow>
         getPlatformLink Whatsapp pc =
           Inr (lit ''https://wa.me/'' @ contactId pc @ lit ''?text='' @ enc)"
    by (simp add: getPlatformLink_def)
  have iff: "getPlatformLink Whatsapp pc = Inr (lit ''https://wa.me/'' @ contactId pc)
         \<longleftrightarrow> \<not> truthy (predefinedMessage pc)"
    by (auto simp add: getPlatformLink_def truthy_def lit_def split: option.splits sum.splits)
  have "lit ''https://wa.me/15551234567?text=Hi'' =
        lit ''https://wa.me/'' @ lit ''15551234567'' @ lit ''?text='' @ lit ''Hi''"
    by (simp add: lit_def)
  then have example: "contactId pc = lit ''15551234567'' \<and> predefinedMessage pc = Some (lit ''Hi'') \<longrightarrow>
         getPlatformLink Whatsapp pc = Inr (lit ''https://wa.me/15551234567?text=Hi'')"
    using encodeURIComponent_Hi by (auto simp add: getPlatformLink_def lit_Cons_neq_Nil)
  from equation unset set_ok well throws iff example encodeURIComponent_reserved
    encodeURIComponent_non_ascii
  show ?thesis by blast
qed

theorem getPlatformLink_whatsapp_witness:
  "getPlatformLink Whatsapp
     \<lparr>enabled = True, contactId = lit ''15551234567'', predefinedMessage = Some (lit ''Hi''),
      emailLinkType = None, customIconSvg = None, color = None\<rparr>
     = Inr (lit ''https://wa.me/15551234567?text=Hi'')
   \<and> encodeURIComponent (lit ''Hi'') = Inr (lit ''Hi'')
   \<and> well_formed (lit ''Hi'')
   \<and> getPlatformLink Whatsapp
     \<lparr>enabled = True, contactId = lit ''15551234567'', predefinedMessage = None,
      emailLinkType = None, customIconSvg = None, color = None\<rparr>
     = Inr (lit ''https://wa.me/'' @ lit ''15551234567'')
   \<and> \<not> well_formed [0xDC00]
   \<and> getPlatformLink Whatsapp
     \<lparr>enabled = True, contactId = lit ''15551234567'', predefinedMessage = Some [0xDC00],
      emailLinkType = None, customIconSvg = None, color = None\<rparr>
     = Inl URIError"
proof -
  let ?pc = "\<lparr>enabled = True, contactId = lit ''15551234567'', predefinedMessage = Some (lit ''Hi''),
      emailLinkType = None, customIconSvg = None, color = None\<rparr>"
  let ?qc = "\<lparr>enabled = True, contactId = lit ''15551234567'', predefinedMessage = None,
      emailLinkType = None, customIconSvg = None, color = None\<rparr>"
  let ?rc = "\<lparr>enabled = True, contactId = lit ''15551234567'', predefinedMessage = Some [0xDC00],
      emailLinkType = None, customIconSvg = None, color = None\<rparr>"
  have set: "contactId ?pc = lit ''15551234567'' \<and> predefinedMessage ?pc = Some (lit ''Hi'')"
    by simp
  have wf: "well_formed (lit ''Hi'')"
    by (simp add: lit_def is_leading_surrogate_def is_trailing_surrogate_def)
  have unset: "\<not> truthy (predefinedMessage ?qc)"
    by (simp add: truthy_def)
  have cid: "contactId ?qc = lit ''15551234567''"
    by simp
  have nwf: "\<not> well_formed [0xDC00]"
    by (simp add: is_leading_surrogate_def is_trailing_surrogate_def)
  then have bad: "predefinedMessage ?rc = Some [0xDC00] \<and> [0xDC00 :: jschar] \<noteq> [] \<and>
      \<not> well_formed [0xDC00]"
    by simp
  from getPlatformLink_whatsapp [of ?pc] set
  have 1: "getPlatformLink Whatsapp ?pc = Inr (lit ''https://wa.me/15551234567?text=Hi'')"
    by blast
  from getPlatformLink_whatsapp [of ?qc] unset
  have "getPlatformLink Whatsapp ?qc = Inr (lit ''https://wa.me/'' @ contactId ?qc)"
    by blast
  then have 2: "getPlatformLink Whatsapp ?qc = Inr (lit ''https://wa.me/'' @ lit ''15551234567'')"
    by (simp only: cid)
  from getPlatformLink_whatsapp [of ?rc] bad
  have 3: "getPlatformLink Whatsapp ?rc = Inl URIError"
    by blast
  from 1 2 3 wf nwf encodeURIComponent_Hi show ?thesis
    by blast
qed

text \<open>The input at which the claim as stated fails: no link, but an exception.\<close>

theorem getPlatformLink_unpaired_surrogate:
  "getPlatformLink Whatsapp
     \<lparr>enabled = True, contactId = lit ''15551234567'', predefinedMessage = Some [0xD83D],
      emailLinkType = None, customIconSvg = None, color = None\<rparr>
   = Inl URIError"
  by (simp add: getPlatformLink_def encodeURIComponent_lone_surrogate)

text \<open>
  Claim C3. For every phone configuration the link is \<^verbatim>\<open>tel:\<close> followed by the contact id
  without its white-space code units, the others kept in their order; for the contact id
  \<^verbatim>\<open>+1 (555) 123-4567\<close> it is \<^verbatim>\<open>tel:+1(555)123-4567\<close>.
\<close>

theorem getPlatformLink_phone:
  "getPlatformLink Phone pc = Inr (lit ''tel:'' @ filter (\<lambda>c. \<not> is_space c) (contactId pc))
   \<and> (contactId pc = lit ''+1 (555) 123-4567'' \<longrightarrow>
        getPlatformLink Phone pc = Inr (lit ''tel:+1(555)123-4567''))"
proof -
  have general: "getPlatformLink Phone pc =
      Inr (lit ''tel:'' @ filter (\<lambda>c. \<not> is_space c) (contactId pc))"
    by (simp add: getPlatformLink_def replace_spaces_filter)
  have "lit ''tel:+1(555)123-4567'' = lit ''tel:'' @ lit ''+1(555)123-4567''"
    by (simp add: lit_def)
  then have example: "contactId pc = lit ''+1 (555) 123-4567'' \<longrightarrow>
        getPlatformLink Phone pc = Inr (lit ''tel:+1(555)123-4567'')"
    by (simp add: getPlatformLink_def replace_spaces_example)
  from general example show ?thesis by blast
qed

theorem getPlatformLink_phone_witness:
  "getPlatformLink Phone
     \<lparr>enabled = True, contactId = lit ''+1 (555) 123-4567'', predefinedMessage = None,
      emailLinkType = None, customIconSvg = None, color = None\<rparr>
     = Inr (lit ''tel:+1(555)123-4567'')"
proof -
  let ?pc = "\<lparr>enabled = True, contactId = lit ''+1 (555) 123-4567'', predefinedMessage = None,
      emailLinkType = None, customIconSvg = None, color = None\<rparr>"
  have "contactId ?pc = lit ''+1 (555) 123-4567''"
    by simp
  with getPlatformLink_phone [of ?pc] show ?thesis
    by blast
qed

lemma url_accepts_path: "validators_url U (lit ''/contact'') = None"
  by (simp add: validators_url_def trim_def lit_def is_space_def startsWith_def)

lemma email_rejects_path: \<open>validators_email (lit ''/contact'') = Some (lit ''Please enter a valid email address.'')\<close>
  by (simp add: validators_email_def trim_def lit_def is_space_def emailRegex_test_def
      is_email_char_def)

lemma email_accepts_default: "validators_email (lit ''hello@example.com'') = None"
  by (simp add: validators_email_def trim_def lit_def is_space_def emailRegex_test_def
      is_email_char_def)

text \<open>
  Claim C10. For the email platform, whenever \<^verbatim>\<open>emailLinkType\<close> is anything but
  \<^verbatim>\<open>'mailto'\<close> (the field absent included) the validator is the URL rule and the link is the
  contact id as it is, with nothing put before it; the email-address rule and the
  \<^verbatim>\<open>mailto:\<close> link are used only when \<^verbatim>\<open>emailLinkType\<close> is \<^verbatim>\<open>'mailto'\<close>. With the field absent, the
  contact id \<^verbatim>\<open>/contact\<close> passes validation, which the email-address rule would refuse.
\<close>

theorem email_link_type_dispatch:
  \<open>(emailLinkType pc \<noteq> Some Mailto \<longrightarrow>
      getValidationError U Email pc = validators_url U (contactId pc) \<and>
      getPlatformLink Email pc = Inr (contactId pc))
   \<and> (emailLinkType pc = Some Mailto \<longrightarrow>
      getValidationError U Email pc = validators_email (contactId pc) \<and>
      getPlatformLink Email pc = Inr (lit ''mailto:'' @ contactId pc))
   \<and> (emailLinkType pc = None \<and> contactId pc = lit ''/contact'' \<longrightarrow>
      getValidationError U Email pc = None \<and>
      validators_email (contactId pc) = Some (lit ''Please enter a valid email address.'') \<and>
      getPlatformLink Email pc = Inr (lit ''/contact''))\<close>
proof -
  have url: "emailLinkType pc \<noteq> Some Mailto \<longrightarrow>
      getValidationError U Email pc = validators_url U (contactId pc) \<and>
      getPlatformLink Email pc = Inr (contactId pc)"
    by (simp add: getValidationError_def getValidationError_cid getPlatformLink_def)
  have mailto: "emailLinkType pc = Some Mailto \<longrightarrow>
      getValidationError U Email pc = validators_email (contactId pc) \<and>
      getPlatformLink Email pc = Inr (lit ''mailto:'' @ contactId pc)"
    by (simp add: getValidationError_def getValidationError_cid getPlatformLink_def)
  have absent: \<open>emailLinkType pc = None \<and> contactId pc = lit ''/contact'' \<longrightarrow>
      getValidationError U Email pc = None \<and>
      validators_email (contactId pc) = Some (lit ''Please enter a valid email address.'') \<and>
      getPlatformLink Email pc = Inr (lit ''/contact'')\<close>
    using url by (auto simp add: url_accepts_path email_rejects_path)
  from url mailto absent show ?thesis by blast
qed

theorem email_link_type_dispatch_witness:
  "getValidationError (\<lambda>u. Inl TypeError) Email
     \<lparr>enabled = True, contactId = lit ''/contact'', predefinedMessage = None,
      emailLinkType = None, customIconSvg = None, color = None\<rparr> = None
   \<and> getPlatformLink Email
     \<lparr>enabled = True, contactId = lit ''/contact'', predefinedMessage = None,
      emailLinkType = None, customIconSvg = None, color = None\<rparr> = Inr (lit ''/contact'')
   \<and> getValidationError (\<lambda>u. Inl TypeError) Email (platforms DEFAULT_CONFIG Email) = None
   \<and> getPlatformLink Email (platforms DEFAULT_CONFIG Email) =
       Inr (lit ''mailto:'' @ lit ''hello@example.com'')"
proof -
  let ?U = "\<lambda>u::jsstring. (Inl TypeError :: error + jsstring)"
  let ?pc = "\<lparr>enabled = True, contactId = lit ''/contact'', predefinedMessage = None,
      emailLinkType = None, customIconSvg = None, color = None\<rparr>"
  have a: "emailLinkType ?pc = None \<and> contactId ?pc = lit ''/contact''"
    by simp
  have b: "emailLinkType (platforms DEFAULT_CONFIG Email) = Some Mailto"
    by (simp add: DEFAULT_CONFIG_def)
  have c: "contactId (platforms DEFAULT_CONFIG Email) = lit ''hello@example.com''"
    by (simp add: DEFAULT_CONFIG_def)
  from email_link_type_dispatch [of ?pc ?U] a
  have 1: "getValidationError ?U Email ?pc = None \<and> getPlatformLink Email ?pc = Inr (lit ''/contact'')"
    by blast
  from email_link_type_dispatch [of "platforms DEFAULT_CONFIG Email" ?U] b
  have "getValidationError ?U Email (platforms DEFAULT_CONFIG Email) =
          validators_email (contactId (platforms DEFAULT_CONFIG Email)) \<and>
        getPlatformLink Email (platforms DEFAULT_CONFIG Email) =
          Inr (lit ''mailto:'' @ contactId (platforms DEFAULT_CONFIG Email))"
    by blast
  then have 2: "getValidationError ?U Email (platforms DEFAULT_CONFIG Email) = None \<and>
        getPlatformLink Email (platforms DEFAULT_CONFIG Email) =
          Inr (lit ''mailto:'' @ lit ''hello@example.com'')"
    by (simp only: c email_accepts_default)
  from 1 2 show ?thesis by blast
qed

section \<open>Editing the link type of the email platform\<close>

text \<open>
  Claim C7. For every configuration, setting \<^verbatim>\<open>emailLinkType\<close> of the email platform gives
  a configuration whose email contact id is the empty string and whose email link type is
  the value set; the other fields of the email platform, the configurations of the other
  platforms and every top-level field are unchanged.
\<close>

theorem handlePlatformFieldChange_emailLinkType:
  "(let c' = handlePlatformFieldChange Email (Field_emailLinkType v) c in
      contactId (platforms c' Email) = [] \<and>
      emailLinkType (platforms c' Email) = v \<and>
      enabled (platforms c' Email) = enabled (platforms c Email) \<and>
      predefinedMessage (platforms c' Email) = predefinedMessage (platforms c Email) \<and>
      customIconSvg (platforms c' Email) = customIconSvg (platforms c Email) \<and>
      color (platforms c' Email) = color (platforms c Email) \<and>
      (\<forall>p. p \<noteq> Email \<longrightarrow> platforms c' p = platforms c p) \<and>
      headerText c' = headerText c \<and>
      headerBgColor c' = headerBgColor c \<and>
      headerTextColor c' = headerTextColor c \<and>
      mainButtonColor c' = mainButtonColor c \<and>
      mainIconColor c' = mainIconColor c \<and>
      position c' = position c \<and>
      buttonAnimation c' = buttonAnimation c \<and>
      widgetShape c' = widgetShape c \<and>
      menuSpacing c' = menuSpacing c)"
  by (simp add: handlePlatformFieldChange_def Let_def lit_def)

theorem handlePlatformFieldChange_emailLinkType_witness:
  "contactId (platforms (handlePlatformFieldChange Email (Field_emailLinkType (Some Url)) DEFAULT_CONFIG) Email) = []
   \<and> emailLinkType (platforms (handlePlatformFieldChange Email (Field_emailLinkType (Some Url)) DEFAULT_CONFIG) Email) = Some Url
   \<and> contactId (platforms DEFAULT_CONFIG Email) = lit ''hello@example.com''
   \<and> platforms (handlePlatformFieldChange Email (Field_emailLinkType (Some Url)) DEFAULT_CONFIG) Whatsapp
       = platforms DEFAULT_CONFIG Whatsapp"
proof -
  have neq: "Whatsapp \<noteq> Email" by simp
  have before: "contactId (platforms DEFAULT_CONFIG Email) = lit ''hello@example.com''"
    by (simp add: DEFAULT_CONFIG_def)
  from handlePlatformFieldChange_emailLinkType [of "Some Url" DEFAULT_CONFIG] neq before
  show ?thesis
    unfolding Let_def by blast
qed

section \<open>The generated bundle\<close>

lemma map_id_PLATFORMS: "map id' PLATFORMS = [Whatsapp, Messenger, Telegram, Phone, Email]"
  by (simp add: PLATFORMS_def)

lemma enabledPlatforms_ids:
  "map id' (enabledPlatforms c) =
     filter (\<lambda>p. enabled (platforms c p)) [Whatsapp, Messenger, Telegram, Phone, Email]"
proof -
  have "map id' (enabledPlatforms c) = filter (\<lambda>p. enabled (platforms c p)) (map id' PLATFORMS)"
    by (simp add: enabledPlatforms_def filter_map comp_def)
  then show ?thesis
    by (simp only: map_id_PLATFORMS)
qed

lemma enabledPlatforms_distinct: "distinct (map id' (enabledPlatforms c))"
  by (simp only: enabledPlatforms_ids) simp

lemma enabledPlatforms_set: "set (map id' (enabledPlatforms c)) = {p. enabled (platforms c p)}"
proof -
  have "p \<in> set [Whatsapp, Messenger, Telegram, Phone, Email]" for p
    by (cases p) simp_all
  then show ?thesis
    by (simp only: enabledPlatforms_ids set_filter) blast
qed

lemma enabledPlatforms_empty_iff:
  "enabledPlatforms c = [] \<longleftrightarrow> (\<forall>p. \<not> enabled (platforms c p))"
  using enabledPlatforms_set [of c] by (auto simp del: set_map)

lemma Array_map_Inr_iff: "Array_map f xs = Inr ys \<longleftrightarrow> map f xs = map Inr ys"
proof (induction xs arbitrary: ys)
  case Nil
  show ?case by auto
next
  case (Cons x xs)
  show ?case
  proof (cases "f x")
    case (Inl e)
    then show ?thesis by (cases ys) auto
  next
    case (Inr y)
    show ?thesis
    proof (cases "Array_map f xs")
      case (Inl e)
      with Inr Cons show ?thesis by (cases ys) auto
    next
      case r: (Inr zs)
      with Inr Cons show ?thesis by (cases ys) auto
    qed
  qed
qed

lemma Array_map_Inl: "Array_map f xs = Inl e \<Longrightarrow> \<exists>x\<in>set xs. f x = Inl e"
  by (induction xs) (auto split: sum.splits)

lemma Array_map_all_Inr:
  "(\<And>x. x \<in> set xs \<Longrightarrow> \<exists>y. f x = Inr y) \<Longrightarrow> \<exists>ys. Array_map f xs = Inr ys"
  by (induction xs) (fastforce split: sum.splits)+

lemma platform_item_Inl_iff:
  "platform_item icon c p = Inl e \<longleftrightarrow> getPlatformLink (id' p) (platforms c (id' p)) = Inl e"
  by (simp add: platform_item_def Let_def split: sum.splits)

lemma platform_item_returns_iff:
  "(\<exists>y. platform_item icon c p = Inr y) \<longleftrightarrow> (\<exists>l. getPlatformLink (id' p) (platforms c (id' p)) = Inr l)"
  by (simp add: platform_item_def Let_def split: sum.splits)

lemma generateWidgetCode_Inr_iff:
  "generateWidgetCode icon c = Inr out \<longleftrightarrow>
     (\<exists>items. Array_map (platform_item icon c) (enabledPlatforms c) = Inr items \<and>
        out = start_marker @ html_open @ header_markup c @ list_open @
              Array_join (lit ''\<newline>      '') items @
              list_close @ fab_markup c @ html_close @
              lit ''\<newline>'' @ css c @ lit ''\<newline>'' @ js @ end_marker)"
  by (auto simp add: generateWidgetCode_def html_def platform_list_def split: sum.splits)

lemma generateWidgetCode_returns_iff:
  "(\<exists>out. generateWidgetCode icon c = Inr out) \<longleftrightarrow>
     (enabled (platforms c Whatsapp) \<longrightarrow>
        (\<exists>link. getPlatformLink Whatsapp (platforms c Whatsapp) = Inr link))"
proof
  assume "\<exists>out. generateWidgetCode icon c = Inr out"
  then obtain items where items:
      "map (platform_item icon c) (enabledPlatforms c) = map Inr items"
    by (auto simp add: generateWidgetCode_Inr_iff Array_map_Inr_iff)
  show "enabled (platforms c Whatsapp) \<longrightarrow>
        (\<exists>link. getPlatformLink Whatsapp (platforms c Whatsapp) = Inr link)"
  proof
    assume "enabled (platforms c Whatsapp)"
    then have "Whatsapp \<in> set (map id' (enabledPlatforms c))"
      by (simp only: enabledPlatforms_set) simp
    then obtain p where p: "p \<in> set (enabledPlatforms c)" "id' p = Whatsapp"
      by auto
    then have "platform_item icon c p \<in> set (map Inr items)"
      using items by (metis image_eqI set_map)
    then obtain y where "platform_item icon c p = Inr y"
      by auto
    then show "\<exists>link. getPlatformLink Whatsapp (platforms c Whatsapp) = Inr link"
      using p platform_item_returns_iff [of icon c p] by auto
  qed
next
  assume w: "enabled (platforms c Whatsapp) \<longrightarrow>
        (\<exists>link. getPlatformLink Whatsapp (platforms c Whatsapp) = Inr link)"
  have "\<exists>y. platform_item icon c p = Inr y" if "p \<in> set (enabledPlatforms c)" for p
  proof (cases "getPlatformLink (id' p) (platforms c (id' p))")
    case (Inl e)
    then have "id' p = Whatsapp"
      using getPlatformLink_throws_only_whatsapp by blast
    moreover from that have "enabled (platforms c (id' p))"
      by (simp add: enabledPlatforms_def)
    ultimately show ?thesis
      using w Inl by auto
  next
    case (Inr l)
    then show ?thesis
      using platform_item_returns_iff [of icon c p] by auto
  qed
  then obtain items where "Array_map (platform_item icon c) (enabledPlatforms c) = Inr items"
    using Array_map_all_Inr [of "enabledPlatforms c" "platform_item icon c"] by blast
  then show "\<exists>out. generateWidgetCode icon c = Inr out"
    by (simp add: generateWidgetCode_Inr_iff)
qed

lemma default_whatsapp_link:
  "\<exists>link. getPlatformLink Whatsapp (platforms DEFAULT_CONFIG Whatsapp) = Inr link"
proof -
  have "well_formed (lit ''Hello! I have a question about your services.'')"
    by (simp add: lit_def is_leading_surrogate_def is_trailing_surrogate_def)
  then obtain enc where
    "encodeURIComponent (lit ''Hello! I have a question about your services.'') = Inr enc"
    using encodeURIComponent_returns_iff by blast
  then show ?thesis
    by (simp add: getPlatformLink_def DEFAULT_CONFIG_def)
qed

lemma Array_join_concat:
  "Array_join sep items =
     (case items of [] \<Rightarrow> [] | x # xs \<Rightarrow> x @ concat (map (\<lambda>i. sep @ i) xs))"
  by (induction sep items rule: Array_join.induct) simp_all

lemma Array_map_zip:
  assumes ok: "\<And>x l. g x = Inr l \<Longrightarrow> f x = Inr (h x l)"
    and bad: "\<And>x e. g x = Inl e \<Longrightarrow> f x = Inl e"
  shows "Array_map f xs = Inr items \<Longrightarrow>
    \<exists>ls. map g xs = map Inr ls \<and> items = map (\<lambda>(x, l). h x l) (zip xs ls)"
proof (induction xs arbitrary: items)
  case Nil
  then show ?case by simp
next
  case (Cons x xs)
  from Cons.prems obtain y ys where y: "f x = Inr y" and ys: "Array_map f xs = Inr ys"
    and items: "items = y # ys"
    by (auto split: sum.splits)
  from y bad [of x] obtain l where l: "g x = Inr l"
    by (cases "g x") auto
  with ok [of x l] y have "y = h x l"
    by simp
  moreover from Cons.IH [OF ys] obtain ls where
    "map g xs = map Inr ls" "ys = map (\<lambda>(x, l). h x l) (zip xs ls)"
    by blast
  ultimately have "map g (x # xs) = map Inr (l # ls) \<and>
      items = map (\<lambda>(x, l). h x l) (zip (x # xs) (l # ls))"
    using l items by simp
  then show ?case by blast
qed

lemma generateWidgetCode_throws_iff:
  "generateWidgetCode icon c = Inl URIError \<longleftrightarrow>
     enabled (platforms c Whatsapp) \<and>
     (\<exists>m. predefinedMessage (platforms c Whatsapp) = Some m \<and> m \<noteq> [] \<and> \<not> well_formed m)"
proof
  assume "generateWidgetCode icon c = Inl URIError"
  then have "\<not> (\<exists>out. generateWidgetCode icon c = Inr out)"
    by simp
  then obtain e where on: "enabled (platforms c Whatsapp)"
    and e: "getPlatformLink Whatsapp (platforms c Whatsapp) = Inl e"
    by (cases "getPlatformLink Whatsapp (platforms c Whatsapp)")
      (auto simp add: generateWidgetCode_returns_iff)
  with getPlatformLink_throws_only_whatsapp [OF e] show "enabled (platforms c Whatsapp) \<and>
     (\<exists>m. predefinedMessage (platforms c Whatsapp) = Some m \<and> m \<noteq> [] \<and> \<not> well_formed m)"
    by blast
next
  assume a: "enabled (platforms c Whatsapp) \<and>
     (\<exists>m. predefinedMessage (platforms c Whatsapp) = Some m \<and> m \<noteq> [] \<and> \<not> well_formed m)"
  then have "getPlatformLink Whatsapp (platforms c Whatsapp) = Inl URIError"
    using whatsapp_link_throws by blast
  with a have "\<not> (\<exists>out. generateWidgetCode icon c = Inr out)"
    by (simp add: generateWidgetCode_returns_iff)
  then obtain e where e: "html icon c = Inl e"
    by (cases "html icon c") (auto simp add: generateWidgetCode_def)
  then obtain x where "platform_item icon c x = Inl e"
    using Array_map_Inl [of "platform_item icon c" "enabledPlatforms c" e]
    by (auto simp add: html_def platform_list_def split: sum.splits)
  then have "e = URIError"
    using getPlatformLink_throws_only_whatsapp by (simp add: platform_item_Inl_iff)
  with e show "generateWidgetCode icon c = Inl URIError"
    by (simp add: generateWidgetCode_def)
qed

lemma generateWidgetCode_outcome:
  "(\<exists>out. generateWidgetCode icon c = Inr out) \<or> generateWidgetCode icon c = Inl URIError"
proof (cases "generateWidgetCode icon c")
  case (Inl e)
  then obtain e' where e: "html icon c = Inl e'" and "e = e'"
    by (cases "html icon c") (auto simp add: generateWidgetCode_def)
  then obtain x where "platform_item icon c x = Inl e"
    using Array_map_Inl [of "platform_item icon c" "enabledPlatforms c" e]
    by (auto simp add: html_def platform_list_def split: sum.splits)
  then have "e = URIError"
    using getPlatformLink_throws_only_whatsapp by (simp add: platform_item_Inl_iff)
  with Inl show ?thesis by simp
next
  case (Inr out)
  then show ?thesis by simp
qed

text \<open>
  Claim C8, corrected. As stated the claim fails: with WhatsApp enabled and a non-empty
  message that holds an unpaired surrogate the generator throws a \<^verbatim>\<open>URIError\<close> and there is
  no output (the example after the theorem). What holds: for every
  configuration the enabled platforms are taken from \<open>PLATFORMS\<close>, so they come in the order
  WhatsApp, Messenger, Telegram, Phone, Email, each enabled platform once and no other (the
  platforms mapping is read by key only). The generator returns a bundle unless WhatsApp is
  enabled with such a message, and then it throws \<^verbatim>\<open>URIError\<close>. In every bundle it returns,
  the text between the opening of the platform list and its closing is made of one link
  element for each enabled platform, in that order, the separator before every element but
  the first; the element of a platform is the anchor with the platform's link as
  \<^verbatim>\<open>href\<close>, its colour, its icon, its name and its caption, the strings of the configuration
  copied into it as they are. When every platform is disabled the bundle is returned with
  nothing between the opening and the closing of the list, the header and the floating
  button in their places.
\<close>

theorem generateWidgetCode_platform_entries:
  \<open>map id' (enabledPlatforms c) =
      filter (\<lambda>p. enabled (platforms c p)) [Whatsapp, Messenger, Telegram, Phone, Email]
   \<and> distinct (map id' (enabledPlatforms c))
   \<and> set (map id' (enabledPlatforms c)) = {p. enabled (platforms c p)}
   \<and> (\<forall>out. generateWidgetCode icon c = Inr out \<longrightarrow>
        (\<exists>links.
           map (\<lambda>p. getPlatformLink (id' p) (platforms c (id' p))) (enabledPlatforms c) =
             map Inr links \<and>
           out = start_marker @ html_open @ header_markup c @ list_open @
                 (case map (\<lambda>(p, link).
                         lit ''\<newline>'' @
                         lit ''      <a href="'' @ link @ lit ''" target="_blank" rel="noopener noreferrer" class="scw-platform-item">\<newline>'' @
                         lit ''        <div class="scw-platform-icon" style="background-color: '' @ or_else (color (platforms c (id' p))) (defaultColor (PLATFORM_DETAILS (id' p))) @ lit '';">\<newline>'' @
                         lit ''          '' @ or_else (customIconSvg (platforms c (id' p))) (icon (id' p) (lit ''#FFFFFF'')) @ lit ''\<newline>'' @
                         lit ''        </div>\<newline>'' @
                         lit ''        <div class="scw-platform-info">\<newline>'' @
                         lit ''          <p class="scw-platform-name">'' @ name p @ lit ''</p>\<newline>'' @
                         lit ''          <p class="scw-platform-cta">'' @ cta (PLATFORM_DETAILS (id' p)) @ lit ''</p>\<newline>'' @
                         lit ''        </div>\<newline>'' @
                         lit ''        <svg class="scw-arrow-icon" xmlns="http://www.w3.org/2000/svg" width="20" height="20" viewBox="0 0 24 24" fill="none" stroke="currentColor" stroke-width="2" stroke-linecap="round" stroke-linejoin="round"><polyline points="9 18 15 12 9 6"></polyline></svg>\<newline>'' @
                         lit ''      </a>'')
                       (zip (enabledPlatforms c) links) of
                    [] \<Rightarrow> []
                  | x # xs \<Rightarrow> x @ concat (map (\<lambda>i. lit ''\<newline>      '' @ i) xs)) @
                 list_close @ fab_markup c @ html_close @
                 lit ''\<newline>'' @ css c @ lit ''\<newline>'' @ js @ end_marker))
   \<and> (generateWidgetCode icon c = Inl URIError \<longleftrightarrow>
        enabled (platforms c Whatsapp) \<and>
        (\<exists>m. predefinedMessage (platforms c Whatsapp) = Some m \<and> m \<noteq> [] \<and> \<not> well_formed m))
   \<and> ((\<exists>out. generateWidgetCode icon c = Inr out) \<longleftrightarrow>
        generateWidgetCode icon c \<noteq> Inl URIError)
   \<and> ((\<forall>p. \<not> enabled (platforms c p)) \<longrightarrow>
        generateWidgetCode icon c =
          Inr (start_marker @ html_open @ header_markup c @ list_open @
               list_close @ fab_markup c @ html_close @
               lit ''\<newline>'' @ css c @ lit ''\<newline>'' @ js @ end_marker))\<close>
proof -
  define element where \<open>element = (\<lambda>(p::PlatformEntry) link.
      lit ''\<newline>'' @
      lit ''      <a href="'' @ link @ lit ''" target="_blank" rel="noopener noreferrer" class="scw-platform-item">\<newline>'' @
      lit ''        <div class="scw-platform-icon" style="background-color: '' @ or_else (color (platforms c (id' p))) (defaultColor (PLATFORM_DETAILS (id' p))) @ lit '';">\<newline>'' @
      lit ''          '' @ or_else (customIconSvg (platforms c (id' p))) (icon (id' p) (lit ''#FFFFFF'')) @ lit ''\<newline>'' @
      lit ''        </div>\<newline>'' @
      lit ''        <div class="scw-platform-info">\<newline>'' @
      lit ''          <p class="scw-platform-name">'' @ name p @ lit ''</p>\<newline>'' @
      lit ''          <p class="scw-platform-cta">'' @ cta (PLATFORM_DETAILS (id' p)) @ lit ''</p>\<newline>'' @
      lit ''        </div>\<newline>'' @
      lit ''        <svg class="scw-arrow-icon" xmlns="http://www.w3.org/2000/svg" width="20" height="20" viewBox="0 0 24 24" fill="none" stroke="currentColor" stroke-width="2" stroke-linecap="round" stroke-linejoin="round"><polyline points="9 18 15 12 9 6"></polyline></svg>\<newline>'' @
      lit ''      </a>'')\<close>
  have item: "platform_item icon c p = Inr (element p link)"
    if "getPlatformLink (id' p) (platforms c (id' p)) = Inr link" for p link
    using that by (simp add: platform_item_def Let_def element_def)
  have no_item: "platform_item icon c p = Inl e"
    if "getPlatformLink (id' p) (platforms c (id' p)) = Inl e" for p e
    using that by (simp add: platform_item_Inl_iff)
  have entries: "\<forall>out. generateWidgetCode icon c = Inr out \<longrightarrow>
        (\<exists>links.
           map (\<lambda>p. getPlatformLink (id' p) (platforms c (id' p))) (enabledPlatforms c) =
             map Inr links \<and>
           out = start_marker @ html_open @ header_markup c @ list_open @
                 (case map (\<lambda>(p, link). element p link) (zip (enabledPlatforms c) links) of
                    [] \<Rightarrow> []
                  | x # xs \<Rightarrow> x @ concat (map (\<lambda>i. lit ''\<newline>      '' @ i) xs)) @
                 list_close @ fab_markup c @ html_close @
                 lit ''\<newline>'' @ css c @ lit ''\<newline>'' @ js @ end_marker)"
  proof (intro allI impI)
    fix out
    assume "generateWidgetCode icon c = Inr out"
    then obtain items where items: "Array_map (platform_item icon c) (enabledPlatforms c) = Inr items"
      and out: "out = start_marker @ html_open @ header_markup c @ list_open @
              Array_join (lit ''\<newline>      '') items @
              list_close @ fab_markup c @ html_close @
              lit ''\<newline>'' @ css c @ lit ''\<newline>'' @ js @ end_marker"
      by (auto simp add: generateWidgetCode_Inr_iff)
    from Array_map_zip [of "\<lambda>p. getPlatformLink (id' p) (platforms c (id' p))"
        "platform_item icon c" element, OF item no_item items]
    obtain links where links:
      "map (\<lambda>p. getPlatformLink (id' p) (platforms c (id' p))) (enabledPlatforms c) = map Inr links"
      "items = map (\<lambda>(p, link). element p link) (zip (enabledPlatforms c) links)"
      by blast
    from out links(2) have "out = start_marker @ html_open @ header_markup c @ list_open @
                 (case map (\<lambda>(p, link). element p link) (zip (enabledPlatforms c) links) of
                    [] \<Rightarrow> []
                  | x # xs \<Rightarrow> x @ concat (map (\<lambda>i. lit ''\<newline>      '' @ i) xs)) @
                 list_close @ fab_markup c @ html_close @
                 lit ''\<newline>'' @ css c @ lit ''\<newline>'' @ js @ end_marker"
      by (simp only: Array_join_concat)
    with links(1) show "\<exists>links.
           map (\<lambda>p. getPlatformLink (id' p) (platforms c (id' p))) (enabledPlatforms c) =
             map Inr links \<and>
           out = start_marker @ html_open @ header_markup c @ list_open @
                 (case map (\<lambda>(p, link). element p link) (zip (enabledPlatforms c) links) of
                    [] \<Rightarrow> []
                  | x # xs \<Rightarrow> x @ concat (map (\<lambda>i. lit ''\<newline>      '' @ i) xs)) @
                 list_close @ fab_markup c @ html_close @
                 lit ''\<newline>'' @ css c @ lit ''\<newline>'' @ js @ end_marker"
      by blast
  qed
  have returns: "(\<exists>out. generateWidgetCode icon c = Inr out) \<longleftrightarrow>
        generateWidgetCode icon c \<noteq> Inl URIError"
    using generateWidgetCode_outcome [of icon c] by auto
  have none: "(\<forall>p. \<not> enabled (platforms c p)) \<longrightarrow>
        generateWidgetCode icon c =
          Inr (start_marker @ html_open @ header_markup c @ list_open @
               list_close @ fab_markup c @ html_close @
               lit ''\<newline>'' @ css c @ lit ''\<newline>'' @ js @ end_marker)"
  proof
    assume "\<forall>p. \<not> enabled (platforms c p)"
    then have "enabledPlatforms c = []"
      by (simp add: enabledPlatforms_empty_iff)
    then show "generateWidgetCode icon c =
          Inr (start_marker @ html_open @ header_markup c @ list_open @
               list_close @ fab_markup c @ html_close @
               lit ''\<newline>'' @ css c @ lit ''\<newline>'' @ js @ end_marker)"
      by (simp add: generateWidgetCode_Inr_iff)
  qed
  from enabledPlatforms_ids [of c] enabledPlatforms_distinct [of c] enabledPlatforms_set [of c]
    entries generateWidgetCode_throws_iff [of icon c] returns none
  show ?thesis
    unfolding element_def by blast
qed

theorem generateWidgetCode_platform_entries_witness:
  "map id' (enabledPlatforms DEFAULT_CONFIG) = [Whatsapp, Messenger, Telegram]
   \<and> (\<exists>out links. generateWidgetCode (\<lambda>p col. lit ''<svg/>'') DEFAULT_CONFIG = Inr out \<and>
         length links = 3 \<and>
         map (\<lambda>p. getPlatformLink (id' p) (platforms DEFAULT_CONFIG (id' p)))
           (enabledPlatforms DEFAULT_CONFIG) = map Inr links)
   \<and> generateWidgetCode (\<lambda>p col. lit ''<svg/>'') DEFAULT_CONFIG \<noteq> Inl URIError
   \<and> generateWidgetCode (\<lambda>p col. lit ''<svg/>'')
       (DEFAULT_CONFIG\<lparr>platforms := \<lambda>p. (platforms DEFAULT_CONFIG p)\<lparr>enabled := False\<rparr>\<rparr>) =
     Inr (start_marker @ html_open @
          header_markup (DEFAULT_CONFIG\<lparr>platforms := \<lambda>p. (platforms DEFAULT_CONFIG p)\<lparr>enabled := False\<rparr>\<rparr>) @
          list_open @ list_close @
          fab_markup (DEFAULT_CONFIG\<lparr>platforms := \<lambda>p. (platforms DEFAULT_CONFIG p)\<lparr>enabled := False\<rparr>\<rparr>) @
          html_close @ lit ''\<newline>'' @
          css (DEFAULT_CONFIG\<lparr>platforms := \<lambda>p. (platforms DEFAULT_CONFIG p)\<lparr>enabled := False\<rparr>\<rparr>) @
          lit ''\<newline>'' @ js @ end_marker)"
proof -
  let ?icon = "\<lambda>(p::Platform) (col::jsstring). lit ''<svg/>''"
  let ?off = "(DEFAULT_CONFIG\<lparr>platforms := \<lambda>p. (platforms DEFAULT_CONFIG p)\<lparr>enabled := False\<rparr>\<rparr>)"
  have "\<forall>p. \<not> enabled (platforms ?off p)"
    by simp
  with generateWidgetCode_platform_entries [of ?off ?icon]
  have off: "generateWidgetCode ?icon ?off =
     Inr (start_marker @ html_open @ header_markup ?off @ list_open @ list_close @
          fab_markup ?off @ html_close @ lit ''\<newline>'' @ css ?off @
          lit ''\<newline>'' @ js @ end_marker)"
    by blast
  note entries = generateWidgetCode_platform_entries [of DEFAULT_CONFIG ?icon]
  have ids: "map id' (enabledPlatforms DEFAULT_CONFIG) = [Whatsapp, Messenger, Telegram]"
    using entries by (simp add: DEFAULT_CONFIG_def)
  have "well_formed (lit ''Hello! I have a question about your services.'')"
    by (simp add: lit_def is_leading_surrogate_def is_trailing_surrogate_def)
  then have "\<not> (\<exists>m. predefinedMessage (platforms DEFAULT_CONFIG Whatsapp) = Some m \<and> m \<noteq> [] \<and>
      \<not> well_formed m)"
    by (simp add: DEFAULT_CONFIG_def)
  with entries have ok: "generateWidgetCode ?icon DEFAULT_CONFIG \<noteq> Inl URIError"
    by blast
  with entries obtain out where out: "generateWidgetCode ?icon DEFAULT_CONFIG = Inr out"
    by blast
  with entries obtain links where links:
    "map (\<lambda>p. getPlatformLink (id' p) (platforms DEFAULT_CONFIG (id' p)))
       (enabledPlatforms DEFAULT_CONFIG) = map Inr links"
    by blast
  have "length (map id' (enabledPlatforms DEFAULT_CONFIG)) = 3"
    by (simp only: ids) simp
  then have "length (map (\<lambda>p. getPlatformLink (id' p) (platforms DEFAULT_CONFIG (id' p)))
       (enabledPlatforms DEFAULT_CONFIG)) = 3"
    by simp
  then have "length links = 3"
    by (simp only: links) simp
  with ids out links ok off show ?thesis
    by blast
qed

text \<open>The input at which the claim as stated fails: no bundle, but an exception.\<close>

theorem generateWidgetCode_unpaired_surrogate:
  "generateWidgetCode (\<lambda>p col. lit ''<svg/>'')
     (DEFAULT_CONFIG\<lparr>platforms := (platforms DEFAULT_CONFIG)
        (Whatsapp := (platforms DEFAULT_CONFIG Whatsapp)\<lparr>predefinedMessage := Some [0xD83D]\<rparr>)\<rparr>)
   = Inl URIError"
proof -
  have "\<not> well_formed [0xD83D]"
    by (simp add: is_leading_surrogate_def)
  then show ?thesis
    by (simp add: generateWidgetCode_throws_iff DEFAULT_CONFIG_def)
qed

lemma platform_item_buttonAnimation:
  "platform_item icon (c\<lparr>buttonAnimation := a\<rparr>) = platform_item icon c"
  by (rule ext) (simp add: platform_item_def)

lemma header_markup_buttonAnimation:
  "header_markup (c\<lparr>buttonAnimation := a\<rparr>) = header_markup c"
  by (simp add: header_markup_def)

lemma fab_markup_buttonAnimation: "fab_markup (c\<lparr>buttonAnimation := a\<rparr>) = fab_markup c"
  by (simp add: fab_markup_def)

lemma platform_list_buttonAnimation:
  "platform_list icon (c\<lparr>buttonAnimation := a\<rparr>) = platform_list icon c"
  by (simp add: platform_list_def platform_item_buttonAnimation enabledPlatforms_def)

lemma html_buttonAnimation: "html icon (c\<lparr>buttonAnimation := a\<rparr>) = html icon c"
  by (cases "platform_list icon c")
    (simp_all add: html_def platform_list_buttonAnimation header_markup_buttonAnimation
      fab_markup_buttonAnimation)

lemma css_head_buttonAnimation: "css_head (c\<lparr>buttonAnimation := a\<rparr>) = css_head c"
  by (simp add: css_head_def positionStyles_def menuTransformOrigin_def menuSpacingValue_def
      platformIconBorderRadius_def fabBorderRadius_def)

lemma getAnimationCss_none: "getAnimationCss NoAnimation = []"
  by (simp add: getAnimationCss_def lit_def)

lemma pulse_one_keyframes:
  "count_occurrences (lit ''@keyframes'') (getAnimationCss Pulse) = 1"
  by (simp add: getAnimationCss_def lit_def startsWith_def)

lemma pulse_one_animation:
  "count_occurrences (lit ''animation:'') (getAnimationCss Pulse) = 1"
  by (simp add: getAnimationCss_def lit_def startsWith_def)

text \<open>
  Claim C9. For every configuration whose animation is \<^verbatim>\<open>none\<close>, changing the animation to
  \<^verbatim>\<open>pulse\<close> leaves the HTML section as it is, and the CSS section of the second run is that
  of the first with the pulse block put before the closing tag; the block holds one
  \<^verbatim>\<open>animation\<close> rule and one \<^verbatim>\<open>@keyframes\<close> definition. The two bundles differ in this block
  only (and two runs that throw, throw the same exception).
\<close>

theorem buttonAnimation_none_to_pulse:
  assumes "buttonAnimation c = NoAnimation"
  shows "html icon (c\<lparr>buttonAnimation := Pulse\<rparr>) = html icon c
    \<and> css c = css_head c @ css_tail
    \<and> css (c\<lparr>buttonAnimation := Pulse\<rparr>) = css_head c @ getAnimationCss Pulse @ css_tail
    \<and> count_occurrences (lit ''@keyframes'') (getAnimationCss Pulse) = 1
    \<and> count_occurrences (lit ''animation:'') (getAnimationCss Pulse) = 1
    \<and> (\<forall>h. html icon c = Inr h \<longrightarrow>
         generateWidgetCode icon c =
           Inr (start_marker @ h @ lit ''\<newline>'' @ css_head c @ css_tail @
                lit ''\<newline>'' @ js @ end_marker) \<and>
         generateWidgetCode icon (c\<lparr>buttonAnimation := Pulse\<rparr>) =
           Inr (start_marker @ h @ lit ''\<newline>'' @ css_head c @ getAnimationCss Pulse @ css_tail @
                lit ''\<newline>'' @ js @ end_marker))
    \<and> (\<forall>e. html icon c = Inl e \<longrightarrow>
         generateWidgetCode icon c = Inl e \<and>
         generateWidgetCode icon (c\<lparr>buttonAnimation := Pulse\<rparr>) = Inl e)"
proof -
  have css_none: "css c = css_head c @ css_tail"
    using assms by (simp add: css_def getAnimationCss_none)
  have css_pulse: "css (c\<lparr>buttonAnimation := Pulse\<rparr>) = css_head c @ getAnimationCss Pulse @ css_tail"
    by (simp add: css_def css_head_buttonAnimation)
  have outputs: "\<forall>h. html icon c = Inr h \<longrightarrow>
         generateWidgetCode icon c =
           Inr (start_marker @ h @ lit ''\<newline>'' @ css_head c @ css_tail @
                lit ''\<newline>'' @ js @ end_marker) \<and>
         generateWidgetCode icon (c\<lparr>buttonAnimation := Pulse\<rparr>) =
           Inr (start_marker @ h @ lit ''\<newline>'' @ css_head c @ getAnimationCss Pulse @ css_tail @
                lit ''\<newline>'' @ js @ end_marker)"
    by (simp add: generateWidgetCode_def html_buttonAnimation css_none css_pulse)
  have failures: "\<forall>e. html icon c = Inl e \<longrightarrow>
         generateWidgetCode icon c = Inl e \<and>
         generateWidgetCode icon (c\<lparr>buttonAnimation := Pulse\<rparr>) = Inl e"
    by (simp add: generateWidgetCode_def html_buttonAnimation)
  from html_buttonAnimation [where icon = icon and c = c and a = Pulse] css_none css_pulse pulse_one_keyframes
    pulse_one_animation outputs failures
  show ?thesis by blast
qed

theorem buttonAnimation_none_to_pulse_witness:
  "buttonAnimation (DEFAULT_CONFIG\<lparr>buttonAnimation := NoAnimation\<rparr>) = NoAnimation
   \<and> (\<exists>h. generateWidgetCode (\<lambda>p col. lit ''<svg/>'')
              (DEFAULT_CONFIG\<lparr>buttonAnimation := NoAnimation\<rparr>) =
            Inr (start_marker @ h @ lit ''\<newline>'' @ css_head DEFAULT_CONFIG @ css_tail @
                 lit ''\<newline>'' @ js @ end_marker) \<and>
          generateWidgetCode (\<lambda>p col. lit ''<svg/>'') DEFAULT_CONFIG =
            Inr (start_marker @ h @ lit ''\<newline>'' @ css_head DEFAULT_CONFIG @
                 getAnimationCss Pulse @ css_tail @ lit ''\<newline>'' @ js @ end_marker))
   \<and> generateWidgetCode (\<lambda>p col. lit ''<svg/>'')
     (DEFAULT_CONFIG\<lparr>buttonAnimation := NoAnimation,
        platforms := (platforms DEFAULT_CONFIG)
          (Whatsapp := (platforms DEFAULT_CONFIG Whatsapp)\<lparr>predefinedMessage := Some [0xD83D]\<rparr>)\<rparr>)
     = Inl URIError
   \<and> generateWidgetCode (\<lambda>p col. lit ''<svg/>'')
     (DEFAULT_CONFIG\<lparr>buttonAnimation := Pulse,
        platforms := (platforms DEFAULT_CONFIG)
          (Whatsapp := (platforms DEFAULT_CONFIG Whatsapp)\<lparr>predefinedMessage := Some [0xD83D]\<rparr>)\<rparr>)
     = Inl URIError"
proof -
  let ?icon = "\<lambda>(p::Platform) (col::jsstring). lit ''<svg/>''"
  let ?b = "(DEFAULT_CONFIG\<lparr>buttonAnimation := NoAnimation,
        platforms := (platforms DEFAULT_CONFIG)
          (Whatsapp := (platforms DEFAULT_CONFIG Whatsapp)\<lparr>predefinedMessage := Some [0xD83D]\<rparr>)\<rparr>)"
  have bnone: "buttonAnimation ?b = NoAnimation"
    by simp
  have upd: "?b\<lparr>buttonAnimation := Pulse\<rparr> = (DEFAULT_CONFIG\<lparr>buttonAnimation := Pulse,
        platforms := (platforms DEFAULT_CONFIG)
          (Whatsapp := (platforms DEFAULT_CONFIG Whatsapp)\<lparr>predefinedMessage := Some [0xD83D]\<rparr>)\<rparr>)"
    by simp
  have "\<not> well_formed [0xD83D]"
    by (simp add: is_leading_surrogate_def)
  then have link: "getPlatformLink Whatsapp (platforms ?b Whatsapp) = Inl URIError"
    by (intro whatsapp_link_throws [where m = "[0xD83D]"]) simp_all
  have on: "enabled (platforms ?b Whatsapp)"
    by (simp add: DEFAULT_CONFIG_def)
  have "\<not> (\<exists>out. generateWidgetCode ?icon ?b = Inr out)"
    using link on by (simp add: generateWidgetCode_returns_iff)
  then obtain e where e: "html ?icon ?b = Inl e"
    by (cases "html ?icon ?b") (auto simp add: generateWidgetCode_def)
  then obtain x where x: "x \<in> set (enabledPlatforms ?b)" "platform_item ?icon ?b x = Inl e"
    using Array_map_Inl [of "platform_item ?icon ?b" "enabledPlatforms ?b" e]
    by (auto simp add: html_def platform_list_def split: sum.splits)
  then have "e = URIError"
    using getPlatformLink_throws_only_whatsapp by (simp add: platform_item_Inl_iff)
  with e buttonAnimation_none_to_pulse [OF bnone, of ?icon]
  have failing: "generateWidgetCode ?icon ?b = Inl URIError \<and>
      generateWidgetCode ?icon (DEFAULT_CONFIG\<lparr>buttonAnimation := Pulse,
        platforms := (platforms DEFAULT_CONFIG)
          (Whatsapp := (platforms DEFAULT_CONFIG Whatsapp)\<lparr>predefinedMessage := Some [0xD83D]\<rparr>)\<rparr>) = Inl URIError"
    by (simp only: upd)
  let ?c = "DEFAULT_CONFIG\<lparr>buttonAnimation := NoAnimation\<rparr>"
  have none: "buttonAnimation ?c = NoAnimation"
    by simp
  have restored: "?c\<lparr>buttonAnimation := Pulse\<rparr> = DEFAULT_CONFIG"
    by (simp add: DEFAULT_CONFIG_def)
  have head: "css_head ?c = css_head DEFAULT_CONFIG"
    by (rule css_head_buttonAnimation)
  have "\<exists>out. generateWidgetCode ?icon DEFAULT_CONFIG = Inr out"
    using default_whatsapp_link by (simp add: generateWidgetCode_returns_iff)
  then obtain h where "html ?icon DEFAULT_CONFIG = Inr h"
    by (cases "html ?icon DEFAULT_CONFIG") (auto simp add: generateWidgetCode_def)
  then have h: "html ?icon ?c = Inr h"
    by (simp add: html_buttonAnimation)
  from buttonAnimation_none_to_pulse [OF none, of ?icon] h
  have "generateWidgetCode ?icon ?c =
           Inr (start_marker @ h @ lit ''\<newline>'' @ css_head ?c @ css_tail @
                lit ''\<newline>'' @ js @ end_marker) \<and>
        generateWidgetCode ?icon (?c\<lparr>buttonAnimation := Pulse\<rparr>) =
           Inr (start_marker @ h @ lit ''\<newline>'' @ css_head ?c @ getAnimationCss Pulse @ css_tail @
                lit ''\<newline>'' @ js @ end_marker)"
    by blast
  then have "\<exists>h. generateWidgetCode ?icon ?c =
            Inr (start_marker @ h @ lit ''\<newline>'' @ css_head DEFAULT_CONFIG @ css_tail @
                 lit ''\<newline>'' @ js @ end_marker) \<and>
          generateWidgetCode ?icon DEFAULT_CONFIG =
            Inr (start_marker @ h @ lit ''\<newline>'' @ css_head DEFAULT_CONFIG @
                 getAnimationCss Pulse @ css_tail @ lit ''\<newline>'' @ js @ end_marker)"
    by (simp only: restored head) blast
  with none failing show ?thesis
    by blast
qed

text \<open>
  What the generator reads: the fields of the configuration, and the icon function at the
  colour white only.
\<close>

lemma generateWidgetCode_reads:
  assumes "\<forall>p. getIconSvgString p (lit ''#FFFFFF'') = getIconSvgString' p (lit ''#FFFFFF'')"
    and "\<forall>p. platforms c p = platforms c' p"
    and "headerText c = headerText c'"
    and "headerBgColor c = headerBgColor c'"
    and "headerTextColor c = headerTextColor c'"
    and "mainButtonColor c = mainButtonColor c'"
    and "mainIconColor c = mainIconColor c'"
    and "position c = position c'"
    and "buttonAnimation c = buttonAnimation c'"
    and "widgetShape c = widgetShape c'"
    and "menuSpacing c = menuSpacing c'"
  shows "generateWidgetCode getIconSvgString c = generateWidgetCode getIconSvgString' c'"
proof -
  from assms(2) have "platforms c = platforms c'"
    by (simp add: fun_eq_iff)
  with assms have c: "c = c'"
    by (simp add: WidgetConfig.equality)
  from assms(1) have "platform_item getIconSvgString c' = platform_item getIconSvgString' c'"
    by (intro ext) (simp add: platform_item_def)
  then have "html getIconSvgString c' = html getIconSvgString' c'"
    by (simp add: html_def platform_list_def)
  with c show ?thesis
    by (simp add: generateWidgetCode_def)
qed

end
